theory Spec2Isabelle
  imports Complex_Main "HOL-Library.Sublist"
begin

section \<open>Python values\<close>

text \<open>
  A Python \<open>str\<close> is a sequence of code points. It is modelled as a \<open>string\<close> whose
  characters are read as the code points U+0000 to U+00FF, so \<open>length\<close> counts what
  Python's \<open>len\<close> counts on that range, and \<open>str.strip\<close> and \<open>str.lower\<close> are
  Python's own on that range.
\<close>

definition isspace :: "char \<Rightarrow> bool" where
  "isspace c =
     (let n = (of_char c :: nat)
      in (9 \<le> n \<and> n \<le> 13) \<or> (28 \<le> n \<and> n \<le> 32) \<or> n = 133 \<or> n = 160)"

definition lower_char :: "char \<Rightarrow> char" where
  "lower_char c =
     (let n = (of_char c :: nat)
      in if (65 \<le> n \<and> n \<le> 90) \<or> (192 \<le> n \<and> n \<le> 222 \<and> n \<noteq> 215)
         then char_of (n + 32) else c)"

definition strip :: "string \<Rightarrow> string" where
  "strip s = rev (dropWhile isspace (rev (dropWhile isspace s)))"

definition lower :: "string \<Rightarrow> string" where
  "lower s = map lower_char s"

text \<open>\<open>sub in s\<close> on strings: \<open>sub\<close> occurs in \<open>s\<close> as a contiguous run.\<close>

fun str_in :: "string \<Rightarrow> string \<Rightarrow> bool" where
  "str_in sub [] = (sub = [])"
| "str_in sub (c # cs) = (prefix sub (c # cs) \<or> str_in sub cs)"

text \<open>
  \<open>s.split(sep, 1)\<close> for a non-empty separator: the text before and after the leftmost
  occurrence of \<open>sep\<close>, or \<open>s\<close> alone when \<open>sep\<close> does not occur.
\<close>

fun find_first :: "string \<Rightarrow> string \<Rightarrow> (string \<times> string) option" where
  "find_first sep [] = None"
| "find_first sep (c # cs) =
     (if prefix sep (c # cs) then Some ([], drop (length sep) (c # cs))
      else (case find_first sep cs of
              None \<Rightarrow> None
            | Some (before, after) \<Rightarrow> Some (c # before, after)))"

definition split1 :: "string \<Rightarrow> string \<Rightarrow> string list" where
  "split1 sep s = (case find_first sep s of None \<Rightarrow> [s] | Some (before, after) \<Rightarrow> [before, after])"

text \<open>\<open>x or None\<close> on a string: the empty string is falsy.\<close>

definition or_None :: "string \<Rightarrow> string option" where
  "or_None x = (if x = [] then None else Some x)"

section \<open>services/query\_router.py: date ranges\<close>

text \<open>
  \<open>_interpret_date_range\<close>. The argument is \<open>Optional[str]\<close>; \<open>not date_range\<close> holds for
  \<open>None\<close> and for the empty string. The tuple assignment \<open>start, end = ...\<close> raises
  \<open>ValueError\<close> on a list that has not two elements; under the test
  \<open>".." in date_range\<close> the list always has two (lemma \<open>split1_two\<close> below), so that
  branch of the case is never taken.
\<close>

definition interpret_date_range :: "string option \<Rightarrow> string option \<times> string option" where
  "interpret_date_range date_range =
     (case date_range of
        None \<Rightarrow> (None, None)
      | Some s \<Rightarrow>
          if s = [] then (None, None)
          else if str_in ''..'' s then
            (case split1 ''..'' s of
               [start, end] \<Rightarrow> (or_None (strip start), or_None (strip end))
             | _ \<Rightarrow> (None, None))
          else (None, None))"

text \<open>
  The form \<open>YYYY-MM-DD..YYYY-MM-DD\<close> of the data model, as the specification words it:
  two dates of four, two and two digits joined by dashes, with \<open>..\<close> between them.
\<close>

definition is_digit :: "char \<Rightarrow> bool" where
  "is_digit c = (let n = (of_char c :: nat) in 48 \<le> n \<and> n \<le> 57)"

definition is_date :: "string \<Rightarrow> bool" where
  "is_date s =
     (case s of
        [y1, y2, y3, y4, a, m1, m2, b, d1, d2] \<Rightarrow>
          is_digit y1 \<and> is_digit y2 \<and> is_digit y3 \<and> is_digit y4 \<and> a = CHR ''-'' \<and>
          is_digit m1 \<and> is_digit m2 \<and> b = CHR ''-'' \<and> is_digit d1 \<and> is_digit d2
      | _ \<Rightarrow> False)"

definition exact_range_form :: "string \<Rightarrow> bool" where
  "exact_range_form s =
     (length s = 22 \<and> is_date (take 10 s) \<and> take 2 (drop 10 s) = ''..'' \<and> is_date (drop 12 s))"

text \<open>
  Decoded JSON, the values the data service and the request body hand to the code. A
  Python \<open>dict\<close> with string keys is an association list in insertion order; \<open>int\<close>
  is unbounded. A \<open>float\<close> is modelled by its real value (NaN and the infinities are
  left out); the code only tests floats for truth, which is \<open>x \<noteq> 0\<close>.
\<close>

datatype json =
    JNull
  | JBool bool
  | JInt int
  | JFloat real
  | JStr string
  | JList "json list"
  | JDict "(string \<times> json) list"

type_synonym dict = "(string \<times> json) list"

text \<open>Truth value testing (\<open>not x\<close>, \<open>x or y\<close>).\<close>

fun truthy :: "json \<Rightarrow> bool" where
  "truthy JNull = False"
| "truthy (JBool b) = b"
| "truthy (JInt n) = (n \<noteq> 0)"
| "truthy (JFloat x) = (x \<noteq> 0)"
| "truthy (JStr s) = (s \<noteq> [])"
| "truthy (JList xs) = (xs \<noteq> [])"
| "truthy (JDict d) = (d \<noteq> [])"

definition py_or :: "json \<Rightarrow> json \<Rightarrow> json" where
  "py_or x y = (if truthy x then x else y)"

fun isinstance_dict :: "json \<Rightarrow> bool" where
  "isinstance_dict (JDict d) = True"
| "isinstance_dict _ = False"

text \<open>\<open>d.get(k)\<close>: the value stored under \<open>k\<close>, \<open>None\<close> when there is none.\<close>

definition dict_get :: "dict \<Rightarrow> string \<Rightarrow> json" where
  "dict_get d k = (case map_of d k of None \<Rightarrow> JNull | Some v \<Rightarrow> v)"

text \<open>\<open>d[k] = v\<close>: an existing key keeps its place, a new key goes to the end.\<close>

fun dict_set :: "dict \<Rightarrow> string \<Rightarrow> json \<Rightarrow> dict" where
  "dict_set [] k v = [(k, v)]"
| "dict_set ((k', v') # d) k v = (if k' = k then (k, v) # d else (k', v') # dict_set d k v)"

definition opt_str :: "string option \<Rightarrow> json" where
  "opt_str x = (case x of None \<Rightarrow> JNull | Some s \<Rightarrow> JStr s)"

definition opt_int :: "int option \<Rightarrow> json" where
  "opt_int x = (case x of None \<Rightarrow> JNull | Some n \<Rightarrow> JInt n)"

section \<open>schemas/intent.py\<close>

text \<open>
  The fields of \<open>Intent\<close>, in the order of the class. The field \<open>intent\<close> holds the
  kind as a string: validation admits three values, and the router still has a branch
  for any other.
\<close>

record Intent =
  intent :: string
  customer_id :: "int option"
  product_id :: "string option"
  metric :: "string option"
  top_n :: "int option"
  date_range :: "string option"

definition model_dump :: "Intent \<Rightarrow> dict" where
  "model_dump i =
     [(''intent'', JStr (intent i)),
      (''customer_id'', opt_int (customer_id i)),
      (''product_id'', opt_str (product_id i)),
      (''metric'', opt_str (metric i)),
      (''top_n'', opt_int (top_n i)),
      (''date_range'', opt_str (date_range i))]"

datatype validation_error = ValidationError

text \<open>
  \<open>Intent.model_validate\<close> on a decoded JSON candidate, as the class declares it:
  \<open>intent\<close> is required and is one of three literals, every other field is optional
  with default \<open>None\<close>, keys the class does not declare are ignored, and the class
  declares no constraint beyond the types. The validating library runs in its lax mode,
  where an \<open>int\<close> field also takes some values that are not \<open>int\<close> (such as a
  numeric string); which ones is the library's matter, so that conversion is the
  parameter \<open>conv\<close>. A \<open>str\<close> field takes a \<open>str\<close> only.
\<close>

definition validate_literal :: "json option \<Rightarrow> validation_error + string" where
  "validate_literal v =
     (case v of
        Some (JStr k) \<Rightarrow>
          if k = ''customer'' \<or> k = ''product'' \<or> k = ''business_metric'' then Inr k
          else Inl ValidationError
      | _ \<Rightarrow> Inl ValidationError)"

definition validate_opt_int :: "(json \<Rightarrow> int option) \<Rightarrow> json option \<Rightarrow> validation_error + int option" where
  "validate_opt_int conv v =
     (case v of
        None \<Rightarrow> Inr None
      | Some JNull \<Rightarrow> Inr None
      | Some (JInt n) \<Rightarrow> Inr (Some n)
      | Some x \<Rightarrow> (case conv x of Some n \<Rightarrow> Inr (Some n) | None \<Rightarrow> Inl ValidationError))"

definition validate_opt_str :: "json option \<Rightarrow> validation_error + string option" where
  "validate_opt_str v =
     (case v of
        None \<Rightarrow> Inr None
      | Some JNull \<Rightarrow> Inr None
      | Some (JStr s) \<Rightarrow> Inr (Some s)
      | Some _ \<Rightarrow> Inl ValidationError)"

definition model_validate :: "(json \<Rightarrow> int option) \<Rightarrow> json \<Rightarrow> validation_error + Intent" where
  "model_validate conv candidate =
     (case candidate of
        JDict d \<Rightarrow>
          (case (validate_literal (map_of d ''intent''),
                 validate_opt_int conv (map_of d ''customer_id''),
                 validate_opt_str (map_of d ''product_id''),
                 validate_opt_str (map_of d ''metric''),
                 validate_opt_int conv (map_of d ''top_n''),
                 validate_opt_str (map_of d ''date_range'')) of
             (Inr k, Inr c, Inr p, Inr m, Inr t, Inr r) \<Rightarrow>
               Inr \<lparr>intent = k, customer_id = c, product_id = p, metric = m, top_n = t,
                    date_range = r\<rparr>
           | _ \<Rightarrow> Inl ValidationError)
      | _ \<Rightarrow> Inl ValidationError)"

text \<open>
  The data model as the specification words it: the kind is one of three values,
  \<open>customer_id\<close> is an optional non-negative integer, \<open>product_id\<close> an optional
  non-empty string, \<open>metric\<close> and \<open>date_range\<close> optional strings and \<open>top_n\<close> an
  optional positive integer.
\<close>

definition spec_conforms :: "json \<Rightarrow> bool" where
  "spec_conforms candidate =
     (case candidate of
        JDict d \<Rightarrow>
          (case map_of d ''intent'' of
             Some (JStr k) \<Rightarrow> k = ''customer'' \<or> k = ''product'' \<or> k = ''business_metric''
           | _ \<Rightarrow> False) \<and>
          (case map_of d ''customer_id'' of
             None \<Rightarrow> True | Some JNull \<Rightarrow> True | Some (JInt n) \<Rightarrow> 0 \<le> n | Some _ \<Rightarrow> False) \<and>
          (case map_of d ''product_id'' of
             None \<Rightarrow> True | Some JNull \<Rightarrow> True | Some (JStr s) \<Rightarrow> s \<noteq> [] | Some _ \<Rightarrow> False) \<and>
          (case map_of d ''metric'' of
             None \<Rightarrow> True | Some JNull \<Rightarrow> True | Some (JStr s) \<Rightarrow> True | Some _ \<Rightarrow> False) \<and>
          (case map_of d ''top_n'' of
             None \<Rightarrow> True | Some JNull \<Rightarrow> True | Some (JInt n) \<Rightarrow> 0 < n | Some _ \<Rightarrow> False) \<and>
          (case map_of d ''date_range'' of
             None \<Rightarrow> True | Some JNull \<Rightarrow> True | Some (JStr s) \<Rightarrow> True | Some _ \<Rightarrow> False)
      | _ \<Rightarrow> False)"

section \<open>services/data\_service.py\<close>

text \<open>
  Exceptions carry the text that \<open>str(exc)\<close> gives. \<open>OtherError\<close> stands for any
  exception class the code does not name.
\<close>

datatype error =
    RoutingError string
  | DataServiceError string
  | AttributeError string
  | OtherError string

fun str_exc :: "error \<Rightarrow> string" where
  "str_exc (RoutingError m) = m"
| "str_exc (DataServiceError m) = m"
| "str_exc (AttributeError m) = m"
| "str_exc (OtherError m) = m"

text \<open>
  The seven fetches of the data service, with their arguments. The service is an HTTP
  client; what it answers is outside the code, so it is a function from the call to
  either an exception or the decoded \<open>Dict[str, Any]\<close> it is declared to return.
\<close>

datatype call =
    GetCustomer int "string option" "string option"
  | GetProduct string "string option" "string option"
  | GetMetricsSummary "string option" "string option"
  | GetMetricsByCategory "string option" "string option"
  | GetMetricsByPayment "string option" "string option"
  | GetTopCustomers int "string option" "string option"
  | GetTopProducts int "string option" "string option"

type_synonym data_service = "call \<Rightarrow> error + dict"

section \<open>services/query\_router.py: routing\<close>

record RoutedResult =
  routed_intent :: Intent
  data :: dict

definition to_dict :: "RoutedResult \<Rightarrow> dict" where
  "to_dict r = [(''intent'', JDict (model_dump (routed_intent r))), (''data'', JDict (data r))]"

definition TRIM_LIMIT :: nat where
  "TRIM_LIMIT = 15"

definition TOP_N_MAX :: int where
  "TOP_N_MAX = 15"

definition supported_metrics :: json where
  "supported_metrics =
     JList [JStr ''summary'', JStr ''top_customers'', JStr ''top_products'',
            JStr ''metrics_by_category'', JStr ''metrics_by_payment'']"

text \<open>
  One call of the data service: the call is logged, an exception of the service leaves
  the router as it is, and the payload goes on to the rest of the branch.
\<close>

definition fetch ::
  "data_service \<Rightarrow> call \<Rightarrow> (dict \<Rightarrow> error + RoutedResult) \<Rightarrow> call list \<times> (error + RoutedResult)" where
  "fetch svc c k = ([c], (case svc c of Inl e \<Rightarrow> Inl e | Inr payload \<Rightarrow> k payload))"

text \<open>
  The bookkeeping both the customer and the product branch attach to a transaction
  list: the list cut to the trim limit, its full length, the limit and whether it was
  cut.
\<close>

definition trim_transactions :: "dict \<Rightarrow> json list \<Rightarrow> dict" where
  "trim_transactions payload transactions =
     (let total = length transactions;
          payload = dict_set payload ''transactions'' (JList (take TRIM_LIMIT transactions));
          payload = dict_set payload ''transactionCount'' (JInt (int total));
          payload = dict_set payload ''transactionsLimit'' (JInt (int TRIM_LIMIT));
          payload = dict_set payload ''transactionsTruncated'' (JBool (total > TRIM_LIMIT))
      in payload)"

definition trim_summary :: "json \<Rightarrow> json" where
  "trim_summary summary =
     (case summary of
        JDict sm \<Rightarrow>
          (case dict_get sm ''stores'' of
             JList stores \<Rightarrow>
               (let total_stores = length stores;
                    t = dict_set sm ''storeCount'' (JInt (int total_stores));
                    t = dict_set t ''storesTruncated'' (JBool (total_stores > TRIM_LIMIT));
                    t = dict_set t ''storesLimit'' (JInt (int TRIM_LIMIT));
                    t = dict_set t ''stores'' (JList (take TRIM_LIMIT stores))
                in JDict t)
           | _ \<Rightarrow> JDict sm)
      | _ \<Rightarrow> summary)"

text \<open>\<open>min(intent.top_n or 5, _TOP_N_MAX)\<close>: zero is falsy, as \<open>None\<close> is.\<close>

definition resolve_limit :: "int option \<Rightarrow> int" where
  "resolve_limit n = min (case n of None \<Rightarrow> 5 | Some x \<Rightarrow> if x = 0 then 5 else x) TOP_N_MAX"

definition annotate_limit :: "int option \<Rightarrow> dict \<Rightarrow> dict" where
  "annotate_limit n payload =
     (case n of
        None \<Rightarrow> payload
      | Some x \<Rightarrow>
          if x > TOP_N_MAX
          then dict_set (dict_set payload ''limitRequested'' (JInt x)) ''limitApplied'' (JInt TOP_N_MAX)
          else payload)"

text \<open>
  \<open>route_intent\<close>. The result is the list of data-service calls made, and either the
  exception raised or the routed result.
\<close>

definition route_intent :: "data_service \<Rightarrow> Intent \<Rightarrow> call list \<times> (error + RoutedResult)" where
  "route_intent svc i =
     (if intent i = ''customer'' then
        (case customer_id i of
           None \<Rightarrow>
             ([], Inr \<lparr>routed_intent = i,
                       data = [(''status'', JStr ''ambiguous_intent''),
                               (''reason'', JStr ''customer_id_missing'')]\<rparr>)
         | Some cid \<Rightarrow>
             (let (date_from, date_to) = interpret_date_range (date_range i)
              in fetch svc (GetCustomer cid date_from date_to) (\<lambda>payload.
                   if \<not> truthy (JDict payload) \<or>
                      (isinstance_dict (JDict payload) \<and>
                       \<not> truthy (dict_get payload ''transactions'') \<and>
                       dict_get payload ''summary'' = JNull)
                   then Inr \<lparr>routed_intent = i,
                             data = [(''status'', JStr ''no_data''),
                                     (''reason'', JStr ''no_customer_transactions''),
                                     (''customerId'', JInt cid)]\<rparr>
                   else Inr \<lparr>routed_intent = i,
                             data = (case dict_get payload ''transactions'' of
                                       JList transactions \<Rightarrow> trim_transactions payload transactions
                                     | _ \<Rightarrow> payload)\<rparr>)))
      else if intent i = ''product'' then
        (case product_id i of
           None \<Rightarrow>
             ([], Inr \<lparr>routed_intent = i,
                       data = [(''status'', JStr ''ambiguous_intent''),
                               (''reason'', JStr ''product_id_missing'')]\<rparr>)
         | Some pid \<Rightarrow>
             (let (date_from, date_to) = interpret_date_range (date_range i)
              in fetch svc (GetProduct pid date_from date_to) (\<lambda>payload.
                   let summary = py_or (dict_get payload ''summary'') (JDict []);
                       trimmed_summary = trim_summary summary
                   in if \<not> truthy (JDict payload) \<or>
                         (trimmed_summary = JNull \<or> trimmed_summary = JDict []) \<or>
                         (case trimmed_summary of
                            JDict t \<Rightarrow>
                              \<not> truthy (dict_get t ''transactionCount'') \<and>
                              \<not> truthy (dict_get t ''totalQuantity'') \<and>
                              \<not> truthy (dict_get t ''totalRevenue'')
                          | _ \<Rightarrow> False)
                      then Inr \<lparr>routed_intent = i,
                                data = [(''status'', JStr ''no_data''),
                                        (''reason'', JStr ''no_product_transactions''),
                                        (''productId'', JStr pid)]\<rparr>
                      else
                        (let slim_payload = [(''productId'', dict_get payload ''productId''),
                                             (''summary'', trimmed_summary),
                                             (''filters'', dict_get payload ''filters'')]
                         in Inr \<lparr>routed_intent = i,
                                  data = (case dict_get payload ''transactions'' of
                                            JList transactions \<Rightarrow>
                                              trim_transactions slim_payload transactions
                                          | _ \<Rightarrow> slim_payload)\<rparr>))))
      else if intent i = ''business_metric'' then
        (let m = lower (strip (case metric i of None \<Rightarrow> [] | Some x \<Rightarrow> x));
             (date_from, date_to) = interpret_date_range (date_range i)
         in if m = [] then
              ([], Inr \<lparr>routed_intent = i,
                        data = [(''status'', JStr ''ambiguous_intent''),
                                (''reason'', JStr ''business_metric_unspecified''),
                                (''supportedMetrics'', supported_metrics)]\<rparr>)
            else if str_in ''store'' m \<or> str_in ''location'' m then
              ([], Inr \<lparr>routed_intent = i,
                        data = [(''status'', JStr ''unsupported_metric''),
                                (''reason'', JStr ''metric_not_supported''),
                                (''requestedMetric'', opt_str (metric i)),
                                (''supportedMetrics'', supported_metrics)]\<rparr>)
            else if m \<in> {''summary'', ''overview'', ''kpis'', ''revenue_summary'',
                          ''total_revenue'', ''revenue''} then
              fetch svc (GetMetricsSummary date_from date_to)
                (\<lambda>payload. Inr \<lparr>routed_intent = i, data = payload\<rparr>)
            else if m \<in> {''metrics_by_category'', ''revenue_by_category'', ''category_revenue'',
                          ''revenue_per_category''} then
              fetch svc (GetMetricsByCategory date_from date_to)
                (\<lambda>payload. Inr \<lparr>routed_intent = i, data = payload\<rparr>)
            else if m \<in> {''metrics_by_payment'', ''revenue_by_payment'', ''payment_revenue'',
                          ''revenue_per_payment'', ''by_payment''} then
              fetch svc (GetMetricsByPayment date_from date_to)
                (\<lambda>payload. Inr \<lparr>routed_intent = i, data = payload\<rparr>)
            else if m = ''top_customers'' then
              (let limit = resolve_limit (top_n i)
               in fetch svc (GetTopCustomers limit date_from date_to)
                    (\<lambda>payload. Inr \<lparr>routed_intent = i, data = annotate_limit (top_n i) payload\<rparr>))
            else if m \<in> {''top_products''} then
              (let limit = resolve_limit (top_n i)
               in fetch svc (GetTopProducts limit date_from date_to)
                    (\<lambda>payload. Inr \<lparr>routed_intent = i, data = annotate_limit (top_n i) payload\<rparr>))
            else
              ([], Inr \<lparr>routed_intent = i,
                        data = [(''status'', JStr ''unsupported_metric''),
                                (''reason'', JStr ''metric_not_recognized''),
                                (''requestedMetric'', opt_str (metric i)),
                                (''supportedMetrics'', supported_metrics)]\<rparr>))
      else ([], Inl (RoutingError (''Unsupported intent type: '' @ intent i))))"

section \<open>flask\_app.py: the chat endpoint\<close>

datatype response = Response (status_code: nat) (body: dict)

text \<open>The text of the \<open>AttributeError\<close> that \<open>x.get\<close> raises on a value that is no dict.\<close>

fun type_name :: "json \<Rightarrow> string" where
  "type_name JNull = ''NoneType''"
| "type_name (JBool b) = ''bool''"
| "type_name (JInt n) = ''int''"
| "type_name (JFloat x) = ''float''"
| "type_name (JStr s) = ''str''"
| "type_name (JList xs) = ''list''"
| "type_name (JDict d) = ''dict''"

definition no_attribute_get :: "json \<Rightarrow> string" where
  "no_attribute_get x =
     [CHR 0x27] @ type_name x @ [CHR 0x27] @ '' object has no attribute '' @
     [CHR 0x27] @ ''get'' @ [CHR 0x27]"

text \<open>
  \<open>chat\<close>. Its collaborators are parameters: the data service, \<open>parse_intent\<close> and
  \<open>generate_response\<close> (two calls of a language model, each either raising or
  returning). \<open>req\<close> is what \<open>request.get_json(silent=True)\<close> gives: the decoded body,
  \<open>None\<close> when there is none. An exception that no handler of \<open>chat\<close> catches leaves
  it (\<open>Inl\<close>); \<open>jsonify\<close> without a status answers 200.
\<close>

definition chat ::
  "data_service \<Rightarrow> (string \<Rightarrow> error + Intent) \<Rightarrow> (string \<Rightarrow> dict \<Rightarrow> error + string) \<Rightarrow> json
     \<Rightarrow> error + response" where
  "chat svc parse_intent generate_response req =
     (case py_or req (JDict []) of
        JDict payload \<Rightarrow>
          (let bad_request =
                 Inr (Response 400
                        [(''error'', JStr ''BadRequest''),
                         (''message'',
                          JStr (''Field '' @ [CHR 0x27] @ ''query'' @ [CHR 0x27] @
                                '' (non-empty string) is required.''))])
           in case dict_get payload ''query'' of
                JStr q \<Rightarrow>
                  if strip q = [] then bad_request
                  else
                    (let user_query = strip q
                     in case parse_intent user_query of
                          Inl exc \<Rightarrow>
                            Inr (Response 400
                                   [(''error'', JStr ''IntentParsingFailed''),
                                    (''message'', JStr (str_exc exc))])
                        | Inr it \<Rightarrow>
                            (case snd (route_intent svc it) of
                               Inl exc \<Rightarrow>
                                 Inr (Response 400
                                        [(''error'', JStr ''RoutingFailed''),
                                         (''message'', JStr (str_exc exc)),
                                         (''intent'', JDict (model_dump it))])
                             | Inr routed \<Rightarrow>
                                 (let routed_payload = to_dict routed
                                  in case generate_response user_query routed_payload of
                                       Inl exc \<Rightarrow>
                                         Inr (Response 502
                                                [(''error'', JStr ''ResponseGenerationFailed''),
                                                 (''message'', JStr (str_exc exc)),
                                                 (''intent'', JDict (model_dump it)),
                                                 (''data'', JDict routed_payload)])
                                     | Inr answer \<Rightarrow>
                                         Inr (Response 200
                                                [(''intent'', JDict (model_dump it)),
                                                 (''data'', JDict routed_payload),
                                                 (''answer'', JStr answer)]))))
              | _ \<Rightarrow> bad_request)
      | x \<Rightarrow> Inl (AttributeError (no_attribute_get x)))"

section \<open>Strings: basic facts\<close>

lemma str_in_sublist: "str_in sub s = sublist sub s"
  by (induction s) (auto simp: sublist_Cons_right)

lemma find_first_None: "sep \<noteq> [] \<Longrightarrow> find_first sep s = None \<longleftrightarrow> \<not> str_in sep s"
  by (induction s) (auto split: option.splits)

lemma split1_two:
  assumes "str_in sep s" and "sep \<noteq> []"
  shows "\<exists>a b. split1 sep s = [a, b]"
proof -
  from assms have "find_first sep s \<noteq> None"
    by (simp add: find_first_None)
  then obtain a b where "find_first sep s = Some (a, b)"
    by auto
  then show ?thesis
    by (simp add: split1_def)
qed

lemma str_in_set: "str_in sub s \<Longrightarrow> set sub \<subseteq> set s"
  by (simp add: str_in_sublist set_mono_sublist)

text \<open>
  What \<open>find_first\<close> returns is a decomposition of the string at the separator, and no
  occurrence of the separator starts further left.
\<close>

lemma find_first_Some:
  "find_first sep s = Some (a, b) \<Longrightarrow>
     s = a @ sep @ b \<and> (\<forall>a' b'. s = a' @ sep @ b' \<longrightarrow> length a \<le> length a')"
proof (induction s arbitrary: a)
  case Nil
  then show ?case by simp
next
  case (Cons c cs)
  show ?case
  proof (cases "prefix sep (c # cs)")
    case True
    with Cons.prems have "a = []" and "b = drop (length sep) (c # cs)"
      by simp_all
    moreover from True have "c # cs = sep @ drop (length sep) (c # cs)"
      by (metis append_eq_conv_conj prefixE)
    ultimately show ?thesis by simp
  next
    case False
    with Cons.prems obtain a0 where f: "find_first sep cs = Some (a0, b)" and a: "a = c # a0"
      by (auto split: option.splits)
    from Cons.IH [OF f] have cs: "cs = a0 @ sep @ b"
      and least: "\<And>a' b'. cs = a' @ sep @ b' \<Longrightarrow> length a0 \<le> length a'"
      by auto
    have "length a \<le> length a'" if eq: "c # cs = a' @ sep @ b'" for a' b'
    proof (cases a')
      case Nil
      with eq have "prefix sep (c # cs)" by simp
      with False show ?thesis by simp
    next
      case (Cons x a'')
      with eq have "cs = a'' @ sep @ b'" by simp
      from least [OF this] show ?thesis using a Cons by simp
    qed
    with cs a show ?thesis by simp
  qed
qed

lemma find_first_append:
  "CHR ''.'' \<notin> set a \<Longrightarrow> find_first ''..'' (a @ ''..'' @ b) = Some (a, b)"
  by (induction a) auto

lemma dropWhile_none: "\<forall>x\<in>set xs. \<not> P x \<Longrightarrow> dropWhile P xs = xs"
  by (cases xs) auto

lemma strip_no_space: "\<forall>c\<in>set s. \<not> isspace c \<Longrightarrow> strip s = s"
  by (simp add: strip_def dropWhile_none)

text \<open>\<open>strip\<close> removes nothing from a word without whitespace inside a string.\<close>

lemma strip_keeps:
  assumes "w \<noteq> []" and "\<forall>c\<in>set w. \<not> isspace c"
  shows "\<exists>pre' post'. strip (pre @ w @ post) = pre' @ w @ post'"
proof -
  from assms obtain c w' where w: "w = c # w'" and c: "\<not> isspace c"
    by (cases w) auto
  from assms obtain w'' e where w2: "w = w'' @ [e]" and e: "\<not> isspace e"
    by (cases w rule: rev_cases) auto
  have 1: "dropWhile isspace (pre @ w @ post) = dropWhile isspace pre @ w @ post"
    using c by (simp add: w dropWhile_append3)
  have "rev (dropWhile isspace pre @ w @ post) =
          rev post @ e # rev w'' @ rev (dropWhile isspace pre)"
    by (simp add: w2)
  then have "dropWhile isspace (rev (dropWhile isspace pre @ w @ post)) =
          dropWhile isspace (rev post) @ e # rev w'' @ rev (dropWhile isspace pre)"
    using e by (simp add: dropWhile_append3)
  also have "\<dots> = dropWhile isspace (rev post) @ rev w @ rev (dropWhile isspace pre)"
    by (simp add: w2)
  finally have "strip (pre @ w @ post) =
      rev (dropWhile isspace (rev post) @ rev w @ rev (dropWhile isspace pre))"
    unfolding strip_def 1 by simp
  then have "strip (pre @ w @ post) =
      dropWhile isspace pre @ w @ rev (dropWhile isspace (rev post))"
    by simp
  then show ?thesis by blast
qed

lemma lower_char_space: "isspace c \<Longrightarrow> lower_char c = c"
  by (auto simp: isspace_def lower_char_def Let_def)

lemma letters_not_space:
  assumes "lower w = ''store'' \<or> lower w = ''location''"
  shows "w \<noteq> [] \<and> (\<forall>c\<in>set w. \<not> isspace c)"
proof -
  have "\<not> isspace c" if "c \<in> set w" for c
  proof
    assume s: "isspace c"
    then have "lower_char c = c" by (rule lower_char_space)
    with that have "c \<in> set (lower w)" by (force simp: lower_def)
    with assms have "c \<in> set ''store'' \<or> c \<in> set ''location''" by auto
    with s show False by (auto simp: isspace_def)
  qed
  moreover from assms have "w \<noteq> []" by (auto simp: lower_def)
  ultimately show ?thesis by blast
qed

text \<open>
  A word that is \<open>store\<close> or \<open>location\<close> up to case, anywhere in a string, is still
  there after stripping and lowercasing.
\<close>

lemma normalized_contains:
  assumes "lower w = ''store'' \<or> lower w = ''location''"
  shows "str_in (lower w) (lower (strip (pre @ w @ post)))"
proof -
  from letters_not_space [OF assms] strip_keeps [of w pre post]
  obtain pre' post' where "strip (pre @ w @ post) = pre' @ w @ post'" by blast
  then have "lower (strip (pre @ w @ post)) = lower pre' @ lower w @ lower post'"
    by (simp add: lower_def)
  then show ?thesis by (simp add: str_in_sublist)
qed

text \<open>
  What \<open>strip\<close> leaves: the string without the whitespace at its two ends, and
  nothing else removed.
\<close>

lemma strip_decomp:
  "dropWhile isspace s = strip s @ rev (takeWhile isspace (rev (dropWhile isspace s)))"
proof -
  let ?u = "dropWhile isspace s"
  have "strip s @ rev (takeWhile isspace (rev ?u)) =
        rev (takeWhile isspace (rev ?u) @ dropWhile isspace (rev ?u))"
    by (simp only: strip_def rev_append)
  also have "\<dots> = ?u"
    by (simp only: takeWhile_dropWhile_id rev_rev_ident)
  finally show ?thesis by simp
qed

lemma strip_split: "\<exists>l r. s = l @ strip s @ r \<and> list_all isspace l \<and> list_all isspace r"
proof -
  let ?u = "dropWhile isspace s"
  have "s = takeWhile isspace s @ ?u" by simp
  with strip_decomp [of s]
  have "s = takeWhile isspace s @ strip s @ rev (takeWhile isspace (rev ?u))"
    by metis
  moreover have "list_all isspace (takeWhile isspace s)"
    by (simp add: list_all_iff) (meson set_takeWhileD)
  moreover have "list_all isspace (rev (takeWhile isspace (rev ?u)))"
    by (simp add: list_all_iff) (meson set_takeWhileD)
  ultimately show ?thesis by blast
qed

lemma strip_ends:
  assumes "strip s \<noteq> []"
  shows "\<not> isspace (hd (strip s)) \<and> \<not> isspace (last (strip s))"
proof -
  let ?u = "dropWhile isspace s"
  let ?v = "dropWhile isspace (rev ?u)"
  from assms have v: "?v \<noteq> []" by (simp add: strip_def)
  then have "\<not> isspace (hd ?v)" by (rule hd_dropWhile)
  with v have l: "\<not> isspace (last (strip s))"
    by (simp add: strip_def last_rev)
  have "?v = []" if "?u = []"
    by (simp only: that rev.simps dropWhile.simps)
  with v have u: "?u \<noteq> []" by blast
  then have h: "\<not> isspace (hd ?u)" by (rule hd_dropWhile)
  from strip_decomp [of s] assms have "hd ?u = hd (strip s)"
    by (metis hd_append2)
  with h l show ?thesis by simp
qed

lemma side_trimmed:
  "(case or_None (strip a) of
      None \<Rightarrow> list_all isspace a
    | Some t \<Rightarrow> t \<noteq> [] \<and> \<not> isspace (hd t) \<and> \<not> isspace (last t) \<and>
        (\<exists>l r. a = l @ t @ r \<and> list_all isspace l \<and> list_all isspace r))"
proof (cases "strip a = []")
  case True
  with strip_split [of a] show ?thesis by (auto simp: or_None_def)
next
  case False
  with strip_split [of a] strip_ends [of a] show ?thesis by (simp add: or_None_def)
qed

section \<open>Dicts\<close>

lemma map_of_dict_set: "map_of (dict_set d k v) = (map_of d)(k \<mapsto> v)"
  by (induction d) auto

lemma dict_get_set: "dict_get (dict_set d k v) k' = (if k' = k then v else dict_get d k')"
  by (simp add: dict_get_def map_of_dict_set)

lemma dict_get_Cons:
  "dict_get ((k', v) # d) k = (if k = k' then v else dict_get d k)"
  by (simp add: dict_get_def)

lemma dict_get_Nil: "dict_get [] k = JNull"
  by (simp add: dict_get_def)

lemma trim_transactions_get:
  "dict_get (trim_transactions payload ts) k =
     (if k = ''transactionsTruncated'' then JBool (length ts > 15)
      else if k = ''transactionsLimit'' then JInt 15
      else if k = ''transactionCount'' then JInt (int (length ts))
      else if k = ''transactions'' then JList (take 15 ts)
      else dict_get payload k)"
  by (simp add: trim_transactions_def Let_def TRIM_LIMIT_def dict_get_set)

lemma trim_summary_get:
  assumes "k \<noteq> ''storeCount''" "k \<noteq> ''storesTruncated''" "k \<noteq> ''storesLimit''"
    "k \<noteq> ''stores''"
  shows "\<exists>t. trim_summary (JDict sm) = JDict t \<and> dict_get t k = dict_get sm k"
  using assms by (simp add: trim_summary_def Let_def dict_get_set split: json.splits)

lemma trim_summary_empty: "trim_summary (JDict []) = JDict []"
  by (simp add: trim_summary_def dict_get_def)

lemma resolve_limit_pos:
  "(\<forall>n. x = Some n \<longrightarrow> 0 < n) \<Longrightarrow>
   resolve_limit x = (case x of None \<Rightarrow> 5 | Some n \<Rightarrow> min n 15)"
  by (auto simp: resolve_limit_def TOP_N_MAX_def split: option.splits)

lemma annotate_limit_over:
  "15 < n \<Longrightarrow>
   dict_get (annotate_limit (Some n) payload) ''limitRequested'' = JInt n \<and>
   dict_get (annotate_limit (Some n) payload) ''limitApplied'' = JInt 15 \<and>
   (\<forall>k. k \<noteq> ''limitRequested'' \<and> k \<noteq> ''limitApplied'' \<longrightarrow>
        dict_get (annotate_limit (Some n) payload) k = dict_get payload k)"
  by (simp add: annotate_limit_def TOP_N_MAX_def dict_get_set)

lemma annotate_limit_under:
  "x = None \<or> (\<exists>n. x = Some n \<and> n \<le> 15) \<Longrightarrow> annotate_limit x payload = payload"
  by (auto simp: annotate_limit_def TOP_N_MAX_def)

section \<open>Date ranges\<close>

lemma interpret_no_dots: "\<not> str_in ''..'' s \<Longrightarrow> interpret_date_range (Some s) = (None, None)"
  by (simp add: interpret_date_range_def)

lemma interpret_dots:
  assumes "find_first ''..'' s = Some (a, b)"
  shows "interpret_date_range (Some s) = (or_None (strip a), or_None (strip b))"
proof -
  from assms have "str_in ''..'' s"
    using find_first_None [of "''..''" s] by simp
  moreover from this have "s \<noteq> []" by auto
  ultimately show ?thesis
    using assms by (simp add: interpret_date_range_def split1_def)
qed

lemma is_date_chars: "is_date s \<Longrightarrow> s \<noteq> [] \<and> (\<forall>c\<in>set s. is_digit c \<or> c = CHR ''-'')"
  by (auto simp: is_date_def split: list.splits)

lemma digit_plain: "is_digit c \<or> c = CHR ''-'' \<Longrightarrow> \<not> isspace c \<and> c \<noteq> CHR ''.''"
  by (auto simp: is_digit_def isspace_def Let_def)

lemma date_plain:
  "is_date s \<Longrightarrow> s \<noteq> [] \<and> CHR ''.'' \<notin> set s \<and> (\<forall>c\<in>set s. \<not> isspace c)"
  using is_date_chars digit_plain by blast

lemma exact_split:
  assumes "exact_range_form s"
  shows "s = take 10 s @ ''..'' @ drop 12 s"
proof -
  from assms have "take 2 (drop 10 s) = ''..''"
    by (simp add: exact_range_form_def)
  then have "drop 10 s = ''..'' @ drop 2 (drop 10 s)"
    by (metis append_take_drop_id)
  then have "drop 10 s = ''..'' @ drop 12 s" by simp
  then show ?thesis by (metis append_take_drop_id)
qed

lemma interpret_exact:
  assumes "exact_range_form s"
  shows "interpret_date_range (Some s) = (Some (take 10 s), Some (drop 12 s))"
proof -
  let ?a = "take 10 s" and ?b = "drop 12 s"
  from assms have a: "is_date ?a" and b: "is_date ?b"
    by (simp_all add: exact_range_form_def)
  from assms have s: "s = ?a @ ''..'' @ ?b" by (rule exact_split)
  from date_plain [OF a] have pa: "?a \<noteq> []" "CHR ''.'' \<notin> set ?a" "strip ?a = ?a"
    by (simp_all add: strip_no_space)
  from date_plain [OF b] have pb: "?b \<noteq> []" "strip ?b = ?b"
    by (simp_all add: strip_no_space)
  have "find_first ''..'' s = Some (?a, ?b)"
    using find_first_append [OF pa(2), of ?b] s by simp
  from interpret_dots [OF this] show ?thesis
    using pa pb by (simp add: or_None_def)
qed

lemma interpret_blank:
  assumes "\<forall>c\<in>set s. isspace c"
  shows "interpret_date_range (Some s) = (None, None)"
proof -
  have "\<not> isspace CHR ''.''" by (simp add: isspace_def)
  with assms have "CHR ''.'' \<notin> set s" by blast
  then have "\<not> str_in ''..'' s" using str_in_set [of "''..''" s] by auto
  then show ?thesis by (rule interpret_no_dots)
qed

text \<open>
  Where the code does what the docstring of \<open>_interpret_date_range\<close> says: a
  string of the exact form \<open>YYYY-MM-DD..YYYY-MM-DD\<close> resolves to its two dates;
  \<open>None\<close>, the empty string, a string of whitespace only and every string in which
  \<open>..\<close> does not occur resolve to \<open>(None, None)\<close>.
\<close>

lemma interpret_date_range_agreed:
  "(exact_range_form s \<longrightarrow>
      interpret_date_range (Some s) = (Some (take 10 s), Some (drop 12 s))) \<and>
   interpret_date_range None = (None, None) \<and>
   interpret_date_range (Some []) = (None, None) \<and>
   ((\<forall>c\<in>set s. isspace c) \<longrightarrow> interpret_date_range (Some s) = (None, None)) \<and>
   (\<not> str_in ''..'' s \<longrightarrow> interpret_date_range (Some s) = (None, None))"
  using interpret_exact interpret_blank interpret_no_dots
  by (simp add: interpret_date_range_def)

text \<open>
  C2: every non-empty string that is not of the exact form \<open>YYYY-MM-DD..YYYY-MM-DD\<close>
  resolves to \<open>(None, None)\<close>; the docstring of \<open>_interpret_date_range\<close> says the
  same (split a string of that form, otherwise return \<open>(None, None)\<close>). The code does
  not: it asks only whether \<open>..\<close> occurs. \<open>Q1..Q2\<close> is not empty and not of the form,
  and the code returns both sides as bounds.
\<close>

theorem interpret_other_form_passes_through:
  "''Q1..Q2'' \<noteq> [] \<and> \<not> exact_range_form ''Q1..Q2'' \<and>
   interpret_date_range (Some ''Q1..Q2'') = (Some ''Q1'', Some ''Q2'') \<and>
   interpret_date_range (Some ''Q1..Q2'') \<noteq> (None, None)"
  by (simp add: exact_range_form_def interpret_date_range_def split1_def strip_def
      isspace_def or_None_def)

text \<open>
  C10: a string in which \<open>..\<close> occurs is split at its leftmost occurrence only, and
  each side is resolved on its own: what is left of the side once the whitespace at its
  two ends is gone, and absent when the side is whitespace only. So one-sided bounds
  come out: \<open>2024-01-01..\<close> gives a lower bound only, \<open>..2024-12-31\<close> an upper bound
  only, \<open>..\<close> neither, and \<open>a..b..c\<close> gives \<open>a\<close> and \<open>b..c\<close>; blanks around a date
  are dropped.
\<close>

theorem interpret_date_range_first_split:
  "(str_in ''..'' s \<longrightarrow>
      (\<exists>a b x y. s = a @ ''..'' @ b \<and>
             (\<forall>a' b'. s = a' @ ''..'' @ b' \<longrightarrow> length a \<le> length a') \<and>
             interpret_date_range (Some s) = (x, y) \<and>
             x = or_None (strip a) \<and> y = or_None (strip b) \<and>
             (case x of
                None \<Rightarrow> list_all isspace a
              | Some t \<Rightarrow> t \<noteq> [] \<and> \<not> isspace (hd t) \<and> \<not> isspace (last t) \<and>
                  (\<exists>l r. a = l @ t @ r \<and> list_all isspace l \<and> list_all isspace r)) \<and>
             (case y of
                None \<Rightarrow> list_all isspace b
              | Some t \<Rightarrow> t \<noteq> [] \<and> \<not> isspace (hd t) \<and> \<not> isspace (last t) \<and>
                  (\<exists>l r. b = l @ t @ r \<and> list_all isspace l \<and> list_all isspace r)))) \<and>
   interpret_date_range (Some ''2024-01-01..'') = (Some ''2024-01-01'', None) \<and>
   interpret_date_range (Some ''..2024-12-31'') = (None, Some ''2024-12-31'') \<and>
   interpret_date_range (Some ''..'') = (None, None) \<and>
   interpret_date_range (Some ''a..b..c'') = (Some ''a'', Some ''b..c'') \<and>
   interpret_date_range (Some '' 2024-01-01 ..  '') = (Some ''2024-01-01'', None) \<and>
   interpret_date_range (Some ''  .. 2024-12-31 '') = (None, Some ''2024-12-31'') \<and>
   interpret_date_range (Some ''2024-01-01 .. 2024-12-31'') =
     (Some ''2024-01-01'', Some ''2024-12-31'')"
proof -
  have "\<exists>a b x y. s = a @ ''..'' @ b \<and>
             (\<forall>a' b'. s = a' @ ''..'' @ b' \<longrightarrow> length a \<le> length a') \<and>
             interpret_date_range (Some s) = (x, y) \<and>
             x = or_None (strip a) \<and> y = or_None (strip b) \<and>
             (case x of
                None \<Rightarrow> list_all isspace a
              | Some t \<Rightarrow> t \<noteq> [] \<and> \<not> isspace (hd t) \<and> \<not> isspace (last t) \<and>
                  (\<exists>l r. a = l @ t @ r \<and> list_all isspace l \<and> list_all isspace r)) \<and>
             (case y of
                None \<Rightarrow> list_all isspace b
              | Some t \<Rightarrow> t \<noteq> [] \<and> \<not> isspace (hd t) \<and> \<not> isspace (last t) \<and>
                  (\<exists>l r. b = l @ t @ r \<and> list_all isspace l \<and> list_all isspace r))"
    if "str_in ''..'' s"
  proof -
    from that have "find_first ''..'' s \<noteq> None"
      using find_first_None [of "''..''" s] by simp
    then obtain a b where f: "find_first ''..'' s = Some (a, b)"
      by auto
    from find_first_Some [OF f] interpret_dots [OF f] side_trimmed [of a] side_trimmed [of b]
    show ?thesis
      by (intro exI [of _ a] exI [of _ b] exI [of _ "or_None (strip a)"]
          exI [of _ "or_None (strip b)"]) simp
  qed
  moreover have "interpret_date_range (Some ''2024-01-01..'') = (Some ''2024-01-01'', None)"
    by (simp add: interpret_date_range_def split1_def strip_def isspace_def or_None_def)
  moreover have "interpret_date_range (Some ''..2024-12-31'') = (None, Some ''2024-12-31'')"
    by (simp add: interpret_date_range_def split1_def strip_def isspace_def or_None_def)
  moreover have "interpret_date_range (Some ''..'') = (None, None)"
    by (simp add: interpret_date_range_def split1_def strip_def isspace_def or_None_def)
  moreover have "interpret_date_range (Some ''a..b..c'') = (Some ''a'', Some ''b..c'')"
    by (simp add: interpret_date_range_def split1_def strip_def isspace_def or_None_def)
  moreover have "interpret_date_range (Some '' 2024-01-01 ..  '') = (Some ''2024-01-01'', None)"
    by (simp add: interpret_date_range_def split1_def strip_def isspace_def or_None_def)
  moreover have "interpret_date_range (Some ''  .. 2024-12-31 '') = (None, Some ''2024-12-31'')"
    by (simp add: interpret_date_range_def split1_def strip_def isspace_def or_None_def)
  moreover have "interpret_date_range (Some ''2024-01-01 .. 2024-12-31'') =
     (Some ''2024-01-01'', Some ''2024-12-31'')"
    by (simp add: interpret_date_range_def split1_def strip_def isspace_def or_None_def)
  ultimately show ?thesis by blast
qed

theorem interpret_date_range_first_split_witness:
  "str_in ''..'' ''  2024-01-01 .. 2024-12-31 '' \<and>
   interpret_date_range (Some ''  2024-01-01 .. 2024-12-31 '') =
     (Some ''2024-01-01'', Some ''2024-12-31'') \<and>
   (\<exists>a b x y. ''  2024-01-01 .. 2024-12-31 '' = a @ ''..'' @ b \<and>
      interpret_date_range (Some ''  2024-01-01 .. 2024-12-31 '') = (x, y) \<and>
      x = or_None (strip a) \<and> y = or_None (strip b))"
proof -
  have h: "str_in ''..'' ''  2024-01-01 .. 2024-12-31 ''"
    by simp
  have v: "interpret_date_range (Some ''  2024-01-01 .. 2024-12-31 '') =
     (Some ''2024-01-01'', Some ''2024-12-31'')"
    by (simp add: interpret_date_range_def split1_def strip_def isspace_def or_None_def)
  from h interpret_date_range_first_split [of "''  2024-01-01 .. 2024-12-31 ''"]
  have "\<exists>a b x y. ''  2024-01-01 .. 2024-12-31 '' = a @ ''..'' @ b \<and>
      interpret_date_range (Some ''  2024-01-01 .. 2024-12-31 '') = (x, y) \<and>
      x = or_None (strip a) \<and> y = or_None (strip b)"
    by blast
  with h v show ?thesis by (intro conjI)
qed

section \<open>Routing: the branches of \<open>route_intent\<close>\<close>

lemma route_customer_calls:
  assumes "intent i = ''customer''" and "customer_id i = Some n"
    and "interpret_date_range (date_range i) = (date_from, date_to)"
  shows "fst (route_intent svc i) = [GetCustomer n date_from date_to]"
  using assms by (simp add: route_intent_def fetch_def)

lemma route_product_calls:
  assumes "intent i = ''product''" and "product_id i = Some p"
    and "interpret_date_range (date_range i) = (date_from, date_to)"
  shows "fst (route_intent svc i) = [GetProduct p date_from date_to]"
  using assms by (simp add: route_intent_def fetch_def)

lemma route_customer_missing:
  assumes "intent i = ''customer''" and "customer_id i = None"
  shows "route_intent svc i =
           ([], Inr \<lparr>routed_intent = i,
                     data = [(''status'', JStr ''ambiguous_intent''),
                             (''reason'', JStr ''customer_id_missing'')]\<rparr>)"
  using assms by (simp add: route_intent_def)

lemma route_product_missing:
  assumes "intent i = ''product''" and "product_id i = None"
  shows "route_intent svc i =
           ([], Inr \<lparr>routed_intent = i,
                     data = [(''status'', JStr ''ambiguous_intent''),
                             (''reason'', JStr ''product_id_missing'')]\<rparr>)"
  using assms by (simp add: route_intent_def)

lemma route_customer:
  assumes "intent i = ''customer''" and "customer_id i = Some cid"
    and "interpret_date_range (date_range i) = (date_from, date_to)"
    and "svc (GetCustomer cid date_from date_to) = Inr payload"
    and "dict_get payload ''transactions'' = JList ts"
    and "ts \<noteq> [] \<or> dict_get payload ''summary'' \<noteq> JNull"
  shows "route_intent svc i =
           ([GetCustomer cid date_from date_to],
            Inr \<lparr>routed_intent = i, data = trim_transactions payload ts\<rparr>)"
proof -
  from assms(5) have "payload \<noteq> []" by (auto simp: dict_get_def)
  with assms show ?thesis
    by (auto simp: route_intent_def fetch_def)
qed

lemma route_product:
  assumes "intent i = ''product''" and "product_id i = Some pid"
    and "interpret_date_range (date_range i) = (date_from, date_to)"
    and "svc (GetProduct pid date_from date_to) = Inr payload"
  shows "route_intent svc i =
           ([GetProduct pid date_from date_to],
            (let summary = py_or (dict_get payload ''summary'') (JDict []);
                 trimmed_summary = trim_summary summary
             in if \<not> truthy (JDict payload) \<or>
                   (trimmed_summary = JNull \<or> trimmed_summary = JDict []) \<or>
                   (case trimmed_summary of
                      JDict t \<Rightarrow>
                        \<not> truthy (dict_get t ''transactionCount'') \<and>
                        \<not> truthy (dict_get t ''totalQuantity'') \<and>
                        \<not> truthy (dict_get t ''totalRevenue'')
                    | _ \<Rightarrow> False)
                then Inr \<lparr>routed_intent = i,
                          data = [(''status'', JStr ''no_data''),
                                  (''reason'', JStr ''no_product_transactions''),
                                  (''productId'', JStr pid)]\<rparr>
                else
                  (let slim_payload = [(''productId'', dict_get payload ''productId''),
                                       (''summary'', trimmed_summary),
                                       (''filters'', dict_get payload ''filters'')]
                   in Inr \<lparr>routed_intent = i,
                            data = (case dict_get payload ''transactions'' of
                                      JList transactions \<Rightarrow>
                                        trim_transactions slim_payload transactions
                                    | _ \<Rightarrow> slim_payload)\<rparr>)))"
  using assms by (simp add: route_intent_def fetch_def)

lemma route_store:
  assumes "intent i = ''business_metric''"
    and "str_in ''store'' (lower (strip (case metric i of None \<Rightarrow> [] | Some x \<Rightarrow> x))) \<or>
         str_in ''location'' (lower (strip (case metric i of None \<Rightarrow> [] | Some x \<Rightarrow> x)))"
  shows "route_intent svc i =
           ([], Inr \<lparr>routed_intent = i,
                     data = [(''status'', JStr ''unsupported_metric''),
                             (''reason'', JStr ''metric_not_supported''),
                             (''requestedMetric'', opt_str (metric i)),
                             (''supportedMetrics'', supported_metrics)]\<rparr>)"
proof -
  let ?m = "lower (strip (case metric i of None \<Rightarrow> [] | Some x \<Rightarrow> x))"
  from assms(2) have "?m \<noteq> []" by auto
  with assms show ?thesis
    by (simp add: route_intent_def Let_def split: prod.splits)
qed

lemma route_top_customers:
  assumes "intent i = ''business_metric''"
    and "lower (strip (case metric i of None \<Rightarrow> [] | Some x \<Rightarrow> x)) = ''top_customers''"
    and "interpret_date_range (date_range i) = (date_from, date_to)"
  shows "route_intent svc i =
           fetch svc (GetTopCustomers (resolve_limit (top_n i)) date_from date_to)
             (\<lambda>payload. Inr \<lparr>routed_intent = i, data = annotate_limit (top_n i) payload\<rparr>)"
  using assms by (simp add: route_intent_def Let_def)

lemma route_top_products:
  assumes "intent i = ''business_metric''"
    and "lower (strip (case metric i of None \<Rightarrow> [] | Some x \<Rightarrow> x)) = ''top_products''"
    and "interpret_date_range (date_range i) = (date_from, date_to)"
  shows "route_intent svc i =
           fetch svc (GetTopProducts (resolve_limit (top_n i)) date_from date_to)
             (\<lambda>payload. Inr \<lparr>routed_intent = i, data = annotate_limit (top_n i) payload\<rparr>)"
  using assms by (simp add: route_intent_def Let_def)

text \<open>
  With the identifier present, what comes back is the service's exception, the
  \<open>no_data\<close> payload, or the payload of the service (trimmed or as it is): never the
  \<open>ambiguous_intent\<close> payload.
\<close>

lemma route_customer_result:
  assumes "intent i = ''customer''" and "customer_id i = Some n"
    and "interpret_date_range (date_range i) = (date_from, date_to)"
    and "svc (GetCustomer n date_from date_to) = Inr payload"
  shows "\<exists>r. snd (route_intent svc i) = Inr r \<and> routed_intent r = i \<and>
           (data r = [(''status'', JStr ''no_data''),
                      (''reason'', JStr ''no_customer_transactions''),
                      (''customerId'', JInt n)] \<or>
            (\<exists>ts. dict_get payload ''transactions'' = JList ts \<and>
                  data r = trim_transactions payload ts) \<or>
            (data r = payload \<and>
             (truthy (dict_get payload ''transactions'') \<or>
              dict_get payload ''summary'' \<noteq> JNull)))"
  using assms
  by (cases "dict_get payload ''transactions''")
     (auto simp: route_intent_def fetch_def)

lemma route_customer_not_ambiguous:
  assumes "intent i = ''customer''" and "customer_id i = Some n"
    and "interpret_date_range (date_range i) = (date_from, date_to)"
    and "svc (GetCustomer n date_from date_to) = Inr payload"
  shows "\<exists>r. snd (route_intent svc i) = Inr r \<and> routed_intent r = i \<and>
           data r \<noteq> [(''status'', JStr ''ambiguous_intent''),
                      (''reason'', JStr ''customer_id_missing'')] \<and>
           (dict_get (data r) ''status'' = JStr ''no_data'' \<or>
            dict_get (data r) ''status'' = dict_get payload ''status'')"
proof -
  let ?amb = "[(''status'', JStr ''ambiguous_intent''), (''reason'', JStr ''customer_id_missing'')]"
  from route_customer_result [where svc = svc and payload = payload, OF assms] obtain r where
    r: "snd (route_intent svc i) = Inr r" "routed_intent r = i"
    and c: "data r = [(''status'', JStr ''no_data''),
                      (''reason'', JStr ''no_customer_transactions''),
                      (''customerId'', JInt n)] \<or>
            (\<exists>ts. dict_get payload ''transactions'' = JList ts \<and>
                  data r = trim_transactions payload ts) \<or>
            (data r = payload \<and>
             (truthy (dict_get payload ''transactions'') \<or>
              dict_get payload ''summary'' \<noteq> JNull))"
    by blast
  have amb: "dict_get ?amb ''transactionsLimit'' = JNull"
    "dict_get ?amb ''transactions'' = JNull" "dict_get ?amb ''summary'' = JNull"
    by (simp_all add: dict_get_def)
  from c have "data r \<noteq> ?amb \<and>
           (dict_get (data r) ''status'' = JStr ''no_data'' \<or>
            dict_get (data r) ''status'' = dict_get payload ''status'')"
  proof (elim disjE exE conjE)
    assume "data r = [(''status'', JStr ''no_data''),
                      (''reason'', JStr ''no_customer_transactions''),
                      (''customerId'', JInt n)]"
    then show ?thesis by (simp add: dict_get_def)
  next
    fix ts
    assume d: "data r = trim_transactions payload ts"
    then have "dict_get (data r) ''transactionsLimit'' = JInt 15"
      by (simp add: trim_transactions_get)
    with amb(1) have "data r \<noteq> ?amb" by auto
    moreover from d have "dict_get (data r) ''status'' = dict_get payload ''status''"
      by (simp add: trim_transactions_get)
    ultimately show ?thesis by blast
  next
    assume d: "data r = payload" and "truthy (dict_get payload ''transactions'')"
    with amb(2) have "data r \<noteq> ?amb" by auto
    with d show ?thesis by simp
  next
    assume d: "data r = payload" and "dict_get payload ''summary'' \<noteq> JNull"
    with amb(3) have "data r \<noteq> ?amb" by auto
    with d show ?thesis by simp
  qed
  with r show ?thesis by blast
qed

lemma route_product_not_ambiguous:
  assumes "intent i = ''product''" and "product_id i = Some p"
    and "interpret_date_range (date_range i) = (date_from, date_to)"
    and "svc (GetProduct p date_from date_to) = Inr payload"
  shows "\<exists>r. snd (route_intent svc i) = Inr r \<and> routed_intent r = i \<and>
           data r \<noteq> [(''status'', JStr ''ambiguous_intent''),
                      (''reason'', JStr ''product_id_missing'')] \<and>
           (dict_get (data r) ''status'' = JStr ''no_data'' \<or>
            dict_get (data r) ''status'' = JNull)"
proof -
  let ?amb = "[(''status'', JStr ''ambiguous_intent''), (''reason'', JStr ''product_id_missing'')]"
  let ?t = "trim_summary (py_or (dict_get payload ''summary'') (JDict []))"
  let ?slim = "[(''productId'', dict_get payload ''productId''), (''summary'', ?t),
                (''filters'', dict_get payload ''filters'')]"
  have "\<exists>r. snd (route_intent svc i) = Inr r \<and> routed_intent r = i \<and>
          (data r = [(''status'', JStr ''no_data''),
                     (''reason'', JStr ''no_product_transactions''),
                     (''productId'', JStr p)] \<or>
           (\<exists>ts. data r = trim_transactions ?slim ts) \<or> data r = ?slim)"
    unfolding route_product [where svc = svc and payload = payload, OF assms]
    by (cases "dict_get payload ''transactions''") (auto simp: Let_def)
  then obtain r where r: "snd (route_intent svc i) = Inr r" "routed_intent r = i"
    and c: "data r = [(''status'', JStr ''no_data''),
                     (''reason'', JStr ''no_product_transactions''),
                     (''productId'', JStr p)] \<or>
           (\<exists>ts. data r = trim_transactions ?slim ts) \<or> data r = ?slim"
    by blast
  have amb: "dict_get ?amb ''transactionsLimit'' = JNull"
    by (simp add: dict_get_def)
  from c have "data r \<noteq> ?amb \<and>
           (dict_get (data r) ''status'' = JStr ''no_data'' \<or>
            dict_get (data r) ''status'' = JNull)"
  proof (elim disjE exE)
    assume "data r = [(''status'', JStr ''no_data''),
                     (''reason'', JStr ''no_product_transactions''),
                     (''productId'', JStr p)]"
    then show ?thesis by (simp add: dict_get_def)
  next
    fix ts
    assume d: "data r = trim_transactions ?slim ts"
    then have "dict_get (data r) ''transactionsLimit'' = JInt 15"
      by (simp add: trim_transactions_get)
    with amb have "data r \<noteq> ?amb" by auto
    moreover from d have "dict_get (data r) ''status'' = JNull"
      by (simp add: trim_transactions_get dict_get_Cons dict_get_Nil)
    ultimately show ?thesis by blast
  next
    assume d: "data r = ?slim"
    then show ?thesis by (simp add: dict_get_def)
  qed
  with r show ?thesis by blast
qed

text \<open>A routed result carries the intent it was routed from.\<close>

lemma route_intent_keeps_intent:
  assumes "snd (route_intent svc i) = Inr r"
  shows "routed_intent r = i"
proof -
  consider (c) "intent i = ''customer''"
    | (p) "intent i \<noteq> ''customer''" "intent i = ''product''"
    | (b) "intent i \<noteq> ''customer''" "intent i \<noteq> ''product''" "intent i = ''business_metric''"
    | (o) "intent i \<noteq> ''customer''" "intent i \<noteq> ''product''" "intent i \<noteq> ''business_metric''"
    by blast
  then show ?thesis
  proof cases
    case c
    with assms show ?thesis
      by (cases "customer_id i")
         (auto simp: route_intent_def fetch_def split: sum.splits prod.splits if_splits)
  next
    case p
    with assms show ?thesis
      by (cases "product_id i")
         (auto simp: route_intent_def fetch_def Let_def split: sum.splits prod.splits if_splits)
  next
    case b
    with assms show ?thesis
      by (auto simp: route_intent_def fetch_def Let_def split: sum.splits prod.splits if_splits)
  next
    case o
    with assms show ?thesis
      by (simp add: route_intent_def)
  qed
qed

section \<open>Routing: missing and present identifiers\<close>

text \<open>
  C6: a customer intent whose \<open>customer_id\<close> is \<open>None\<close> is routed to
  \<open>ambiguous_intent\<close> with reason \<open>customer_id_missing\<close>, and a product intent whose
  \<open>product_id\<close> is \<open>None\<close> to \<open>ambiguous_intent\<close> with reason \<open>product_id_missing\<close>;
  in both cases the data service is not called.
\<close>

theorem route_missing_id:
  "(intent i = ''customer'' \<and> customer_id i = None \<longrightarrow>
      route_intent svc i =
        ([], Inr \<lparr>routed_intent = i,
                  data = [(''status'', JStr ''ambiguous_intent''),
                          (''reason'', JStr ''customer_id_missing'')]\<rparr>)) \<and>
   (intent i = ''product'' \<and> product_id i = None \<longrightarrow>
      route_intent svc i =
        ([], Inr \<lparr>routed_intent = i,
                  data = [(''status'', JStr ''ambiguous_intent''),
                          (''reason'', JStr ''product_id_missing'')]\<rparr>))"
  using route_customer_missing route_product_missing by blast

theorem route_missing_id_witness:
  "route_intent (\<lambda>c. Inl (DataServiceError ''unreachable''))
     \<lparr>intent = ''customer'', customer_id = None, product_id = Some ''A'', metric = None,
      top_n = None, date_range = None\<rparr> =
   ([], Inr \<lparr>routed_intent =
               \<lparr>intent = ''customer'', customer_id = None, product_id = Some ''A'',
                metric = None, top_n = None, date_range = None\<rparr>,
             data = [(''status'', JStr ''ambiguous_intent''),
                     (''reason'', JStr ''customer_id_missing'')]\<rparr>) \<and>
   route_intent (\<lambda>c. Inl (DataServiceError ''unreachable''))
     \<lparr>intent = ''product'', customer_id = Some 7, product_id = None, metric = Some ''summary'',
      top_n = None, date_range = None\<rparr> =
   ([], Inr \<lparr>routed_intent =
               \<lparr>intent = ''product'', customer_id = Some 7, product_id = None,
                metric = Some ''summary'', top_n = None, date_range = None\<rparr>,
             data = [(''status'', JStr ''ambiguous_intent''),
                     (''reason'', JStr ''product_id_missing'')]\<rparr>)"
  using
    route_missing_id [of "\<lparr>intent = ''customer'', customer_id = None, product_id = Some ''A'',
        metric = None, top_n = None, date_range = None\<rparr>"
      "\<lambda>c. Inl (DataServiceError ''unreachable'')"]
    route_missing_id [of "\<lparr>intent = ''product'', customer_id = Some 7, product_id = None,
        metric = Some ''summary'', top_n = None, date_range = None\<rparr>"
      "\<lambda>c. Inl (DataServiceError ''unreachable'')"]
  by simp

text \<open>
  C9: only \<open>None\<close> is a missing identifier. A customer intent is answered with
  \<open>ambiguous_intent\<close> and no call exactly when \<open>customer_id\<close> is \<open>None\<close>. With any
  integer, zero and the negative ones included, the customer is fetched with that
  identifier, and the answer is the service's exception or a result that is not the
  \<open>ambiguous_intent\<close> payload: its status is \<open>no_data\<close> or whatever the fetched
  payload holds under \<open>status\<close>. Likewise a product intent with any string, the empty
  one included, is fetched with that string, and the status of the result is
  \<open>no_data\<close> or absent.
\<close>

theorem route_present_ids:
  "(intent i = ''customer'' \<longrightarrow>
      (route_intent svc i =
         ([], Inr \<lparr>routed_intent = i,
                   data = [(''status'', JStr ''ambiguous_intent''),
                           (''reason'', JStr ''customer_id_missing'')]\<rparr>)
       \<longleftrightarrow> customer_id i = None)) \<and>
   (intent i = ''customer'' \<and> customer_id i = Some n \<and>
    interpret_date_range (date_range i) = (date_from, date_to) \<longrightarrow>
      fst (route_intent svc i) = [GetCustomer n date_from date_to] \<and>
      (\<forall>e. svc (GetCustomer n date_from date_to) = Inl e \<longrightarrow>
           snd (route_intent svc i) = Inl e) \<and>
      (\<forall>payload. svc (GetCustomer n date_from date_to) = Inr payload \<longrightarrow>
         (\<exists>r. snd (route_intent svc i) = Inr r \<and> routed_intent r = i \<and>
              data r \<noteq> [(''status'', JStr ''ambiguous_intent''),
                         (''reason'', JStr ''customer_id_missing'')] \<and>
              (dict_get (data r) ''status'' = JStr ''no_data'' \<or>
               dict_get (data r) ''status'' = dict_get payload ''status'')))) \<and>
   (intent i = ''product'' \<longrightarrow>
      (route_intent svc i =
         ([], Inr \<lparr>routed_intent = i,
                   data = [(''status'', JStr ''ambiguous_intent''),
                           (''reason'', JStr ''product_id_missing'')]\<rparr>)
       \<longleftrightarrow> product_id i = None)) \<and>
   (intent i = ''product'' \<and> product_id i = Some p \<and>
    interpret_date_range (date_range i) = (date_from, date_to) \<longrightarrow>
      fst (route_intent svc i) = [GetProduct p date_from date_to] \<and>
      (\<forall>e. svc (GetProduct p date_from date_to) = Inl e \<longrightarrow>
           snd (route_intent svc i) = Inl e) \<and>
      (\<forall>payload. svc (GetProduct p date_from date_to) = Inr payload \<longrightarrow>
         (\<exists>r. snd (route_intent svc i) = Inr r \<and> routed_intent r = i \<and>
              data r \<noteq> [(''status'', JStr ''ambiguous_intent''),
                         (''reason'', JStr ''product_id_missing'')] \<and>
              (dict_get (data r) ''status'' = JStr ''no_data'' \<or>
               dict_get (data r) ''status'' = JNull))))"
proof -
  have "route_intent svc i \<noteq> ([], r)"
    if "intent i = ''customer''" "customer_id i \<noteq> None" for r
  proof -
    from that obtain n' where "customer_id i = Some n'" by auto
    with that route_customer_calls [of i n' "fst (interpret_date_range (date_range i))"
        "snd (interpret_date_range (date_range i))" svc]
    show ?thesis by auto
  qed
  moreover have "route_intent svc i \<noteq> ([], r)"
    if "intent i = ''product''" "product_id i \<noteq> None" for r
  proof -
    from that obtain p' where "product_id i = Some p'" by auto
    with that route_product_calls [of i p' "fst (interpret_date_range (date_range i))"
        "snd (interpret_date_range (date_range i))" svc]
    show ?thesis by auto
  qed
  moreover have "snd (route_intent svc i) = Inl e"
    if "intent i = ''customer''" "customer_id i = Some n"
      "interpret_date_range (date_range i) = (date_from, date_to)"
      "svc (GetCustomer n date_from date_to) = Inl e" for e
    using that by (simp add: route_intent_def fetch_def)
  moreover have "snd (route_intent svc i) = Inl e"
    if "intent i = ''product''" "product_id i = Some p"
      "interpret_date_range (date_range i) = (date_from, date_to)"
      "svc (GetProduct p date_from date_to) = Inl e" for e
    using that by (simp add: route_intent_def fetch_def)
  moreover note route_customer_missing [of i svc] route_product_missing [of i svc]
    route_customer_calls [of i n date_from date_to svc]
    route_product_calls [of i p date_from date_to svc]
    route_customer_not_ambiguous [of i n date_from date_to svc]
    route_product_not_ambiguous [of i p date_from date_to svc]
  ultimately show ?thesis by blast
qed


theorem route_present_ids_witness:
  "route_intent
     (\<lambda>c. Inr [(''customerId'', JInt 0), (''transactions'', JList [JInt 1]),
                (''summary'', JDict [(''transactionCount'', JInt 1)])])
     \<lparr>intent = ''customer'', customer_id = Some 0, product_id = None, metric = None,
      top_n = None, date_range = None\<rparr> =
   ([GetCustomer 0 None None],
    Inr \<lparr>routed_intent =
           \<lparr>intent = ''customer'', customer_id = Some 0, product_id = None, metric = None,
            top_n = None, date_range = None\<rparr>,
         data = [(''customerId'', JInt 0), (''transactions'', JList [JInt 1]),
                 (''summary'', JDict [(''transactionCount'', JInt 1)]),
                 (''transactionCount'', JInt 1), (''transactionsLimit'', JInt 15),
                 (''transactionsTruncated'', JBool False)]\<rparr>) \<and>
   (\<exists>r. snd (route_intent
       (\<lambda>c. Inr [(''customerId'', JInt 0), (''transactions'', JList [JInt 1]),
                  (''summary'', JDict [(''transactionCount'', JInt 1)])])
       \<lparr>intent = ''customer'', customer_id = Some 0, product_id = None, metric = None,
        top_n = None, date_range = None\<rparr>) = Inr r \<and>
      data r \<noteq> [(''status'', JStr ''ambiguous_intent''),
                 (''reason'', JStr ''customer_id_missing'')]) \<and>
   route_intent (\<lambda>c. Inl (DataServiceError ''API request failed: 404''))
     \<lparr>intent = ''customer'', customer_id = Some (- 7), product_id = None, metric = None,
      top_n = None, date_range = None\<rparr> =
   ([GetCustomer (- 7) None None], Inl (DataServiceError ''API request failed: 404'')) \<and>
   route_intent (\<lambda>c. Inr [])
     \<lparr>intent = ''product'', customer_id = None, product_id = Some [], metric = None,
      top_n = None, date_range = None\<rparr> =
   ([GetProduct [] None None],
    Inr \<lparr>routed_intent =
           \<lparr>intent = ''product'', customer_id = None, product_id = Some [], metric = None,
            top_n = None, date_range = None\<rparr>,
         data = [(''status'', JStr ''no_data''), (''reason'', JStr ''no_product_transactions''),
                 (''productId'', JStr [])]\<rparr>)"
proof -
  let ?payload = "[(''customerId'', JInt 0), (''transactions'', JList [JInt 1]),
                   (''summary'', JDict [(''transactionCount'', JInt 1)])]"
  let ?svc = "\<lambda>c::call. Inr ?payload :: error + dict"
  let ?down = "\<lambda>c::call. Inl (DataServiceError ''API request failed: 404'') :: error + dict"
  let ?empty = "\<lambda>c::call. Inr [] :: error + dict"
  let ?i0 = "\<lparr>intent = ''customer'', customer_id = Some 0, product_id = None, metric = None,
      top_n = None, date_range = None\<rparr>"
  let ?i7 = "\<lparr>intent = ''customer'', customer_id = Some (- 7), product_id = None,
      metric = None, top_n = None, date_range = None\<rparr>"
  let ?ip = "\<lparr>intent = ''product'', customer_id = None, product_id = Some [], metric = None,
      top_n = None, date_range = None\<rparr>"
  have d: "interpret_date_range None = (None, None)"
    by (simp add: interpret_date_range_def)
  have 1: "route_intent ?svc ?i0 =
     ([GetCustomer 0 None None],
      Inr \<lparr>routed_intent = ?i0,
           data = [(''customerId'', JInt 0), (''transactions'', JList [JInt 1]),
                   (''summary'', JDict [(''transactionCount'', JInt 1)]),
                   (''transactionCount'', JInt 1), (''transactionsLimit'', JInt 15),
                   (''transactionsTruncated'', JBool False)]\<rparr>)"
    by (simp add: route_intent_def fetch_def d dict_get_def trim_transactions_def
        TRIM_LIMIT_def)
  from d route_present_ids [of ?i0 ?svc 0 None None]
  have 2: "\<exists>r. snd (route_intent ?svc ?i0) = Inr r \<and>
      data r \<noteq> [(''status'', JStr ''ambiguous_intent''),
                 (''reason'', JStr ''customer_id_missing'')]"
    by simp blast
  from d route_present_ids [of ?i7 ?down "- 7" None None]
  have "fst (route_intent ?down ?i7) = [GetCustomer (- 7) None None] \<and>
        snd (route_intent ?down ?i7) = Inl (DataServiceError ''API request failed: 404'')"
    by simp
  then have 3: "route_intent ?down ?i7 =
      ([GetCustomer (- 7) None None], Inl (DataServiceError ''API request failed: 404''))"
    by (simp add: prod_eq_iff)
  from d route_present_ids [of ?ip ?empty _ None None "[]"]
  have f: "fst (route_intent ?empty ?ip) = [GetProduct [] None None]"
    by simp
  have "snd (route_intent ?empty ?ip) =
      Inr \<lparr>routed_intent = ?ip,
           data = [(''status'', JStr ''no_data''), (''reason'', JStr ''no_product_transactions''),
                   (''productId'', JStr [])]\<rparr>"
    by (simp add: route_intent_def fetch_def d)
  with f have 4: "route_intent ?empty ?ip =
      ([GetProduct [] None None],
       Inr \<lparr>routed_intent = ?ip,
           data = [(''status'', JStr ''no_data''), (''reason'', JStr ''no_product_transactions''),
                   (''productId'', JStr [])]\<rparr>)"
    by (simp add: prod_eq_iff)
  from 1 2 3 4 show ?thesis by (intro conjI)
qed

section \<open>Routing: business metrics\<close>

text \<open>
  C4: a business-metric intent whose metric, stripped and lowercased, contains
  \<open>store\<close> or \<open>location\<close> is routed to \<open>unsupported_metric\<close> with reason
  \<open>metric_not_supported\<close>, the metric as requested and the fixed list of supported
  metrics, and the data service is not called. No synonym set is consulted before, and
  the word may stand anywhere in the original string, in any case.
\<close>

theorem route_store_location_unsupported:
  assumes "intent i = ''business_metric''"
    and "str_in ''store'' (lower (strip (case metric i of None \<Rightarrow> [] | Some x \<Rightarrow> x))) \<or>
         str_in ''location'' (lower (strip (case metric i of None \<Rightarrow> [] | Some x \<Rightarrow> x))) \<or>
         (\<exists>pre w post. metric i = Some (pre @ w @ post) \<and>
            (lower w = ''store'' \<or> lower w = ''location''))"
  shows "route_intent svc i =
           ([], Inr \<lparr>routed_intent = i,
                     data = [(''status'', JStr ''unsupported_metric''),
                             (''reason'', JStr ''metric_not_supported''),
                             (''requestedMetric'', opt_str (metric i)),
                             (''supportedMetrics'',
                              JList [JStr ''summary'', JStr ''top_customers'',
                                     JStr ''top_products'', JStr ''metrics_by_category'',
                                     JStr ''metrics_by_payment''])]\<rparr>)"
proof -
  let ?m = "lower (strip (case metric i of None \<Rightarrow> [] | Some x \<Rightarrow> x))"
  have "str_in ''store'' ?m \<or> str_in ''location'' ?m"
  proof (cases "str_in ''store'' ?m \<or> str_in ''location'' ?m")
    case True
    then show ?thesis .
  next
    case False
    with assms(2) obtain pre w post where m: "metric i = Some (pre @ w @ post)"
      and w: "lower w = ''store'' \<or> lower w = ''location''"
      by blast
    from normalized_contains [OF w, of pre post] m have "str_in (lower w) ?m"
      by simp
    with w show ?thesis by auto
  qed
  from route_store [OF assms(1) this] show ?thesis
    by (simp add: supported_metrics_def)
qed

theorem route_store_location_unsupported_witness:
  "route_intent (\<lambda>c. Inr [(''summary'', JDict [(''totalRevenue'', JInt 1000)])])
     \<lparr>intent = ''business_metric'', customer_id = None, product_id = None,
      metric = Some '' Revenue_By_STORE '', top_n = None, date_range = None\<rparr> =
   ([], Inr \<lparr>routed_intent =
               \<lparr>intent = ''business_metric'', customer_id = None, product_id = None,
                metric = Some '' Revenue_By_STORE '', top_n = None, date_range = None\<rparr>,
             data = [(''status'', JStr ''unsupported_metric''),
                     (''reason'', JStr ''metric_not_supported''),
                     (''requestedMetric'', JStr '' Revenue_By_STORE ''),
                     (''supportedMetrics'',
                      JList [JStr ''summary'', JStr ''top_customers'', JStr ''top_products'',
                             JStr ''metrics_by_category'', JStr ''metrics_by_payment''])]\<rparr>)"
proof -
  let ?i = "\<lparr>intent = ''business_metric'', customer_id = None, product_id = None,
      metric = Some '' Revenue_By_STORE '', top_n = None, date_range = None\<rparr>"
  have n: "lower (strip '' Revenue_By_STORE '') = ''revenue_by_store''"
    by code_simp
  have "str_in ''store'' (lower (strip (case metric ?i of None \<Rightarrow> [] | Some x \<Rightarrow> x)))"
    by (simp add: n)
  from route_store_location_unsupported [of ?i, OF _ disjI1, OF _ this] show ?thesis
    by (simp add: opt_str_def)
qed

text \<open>
  C3: for a business-metric intent whose stripped, lowercased metric is exactly
  \<open>top_customers\<close> or \<open>top_products\<close>, and whose \<open>top_n\<close> is positive when present,
  the one call made is the top-N fetch with limit \<open>min(top_n, 15)\<close>, or 5 when
  \<open>top_n\<close> is absent. An exception of the service is passed on. Otherwise the payload
  comes back with \<open>limitRequested = top_n\<close> and \<open>limitApplied = 15\<close> written into it
  when \<open>top_n\<close> is present and above 15, every other field (a \<open>limit\<close> field of the
  service among them) as fetched; and it comes back as fetched when \<open>top_n\<close> is absent
  or at most 15.
\<close>

theorem route_top_n_clamps:
  assumes "intent i = ''business_metric''"
    and "lower (strip (case metric i of None \<Rightarrow> [] | Some x \<Rightarrow> x)) = m"
    and "m = ''top_customers'' \<or> m = ''top_products''"
    and "interpret_date_range (date_range i) = (date_from, date_to)"
    and "\<forall>n. top_n i = Some n \<longrightarrow> 0 < n"
    and "limit = (case top_n i of None \<Rightarrow> 5 | Some n \<Rightarrow> min n 15)"
    and "c = (if m = ''top_customers'' then GetTopCustomers limit date_from date_to
              else GetTopProducts limit date_from date_to)"
  shows "fst (route_intent svc i) = [c] \<and>
         (\<forall>e. svc c = Inl e \<longrightarrow> snd (route_intent svc i) = Inl e) \<and>
         (\<forall>payload. svc c = Inr payload \<longrightarrow>
            (\<exists>r. snd (route_intent svc i) = Inr r \<and> routed_intent r = i \<and>
               (if \<exists>n. top_n i = Some n \<and> 15 < n
                then dict_get (data r) ''limitRequested'' = opt_int (top_n i) \<and>
                     dict_get (data r) ''limitApplied'' = JInt 15 \<and>
                     (\<forall>k. k \<noteq> ''limitRequested'' \<and> k \<noteq> ''limitApplied'' \<longrightarrow>
                          dict_get (data r) k = dict_get payload k)
                else data r = payload)))"
proof -
  from assms(5) have l: "resolve_limit (top_n i) = limit"
    by (simp add: resolve_limit_pos assms(6))
  have r: "route_intent svc i =
      fetch svc c (\<lambda>payload. Inr \<lparr>routed_intent = i, data = annotate_limit (top_n i) payload\<rparr>)"
  proof (cases "m = ''top_customers''")
    case True
    with route_top_customers [of i date_from date_to svc] assms l show ?thesis by simp
  next
    case False
    with assms(3) have "m = ''top_products''" by simp
    with route_top_products [of i date_from date_to svc] assms l show ?thesis by simp
  qed
  have a: "if \<exists>n. top_n i = Some n \<and> 15 < n
        then dict_get (annotate_limit (top_n i) payload) ''limitRequested'' = opt_int (top_n i) \<and>
             dict_get (annotate_limit (top_n i) payload) ''limitApplied'' = JInt 15 \<and>
             (\<forall>k. k \<noteq> ''limitRequested'' \<and> k \<noteq> ''limitApplied'' \<longrightarrow>
                  dict_get (annotate_limit (top_n i) payload) k = dict_get payload k)
        else annotate_limit (top_n i) payload = payload" for payload
  proof (cases "\<exists>n. top_n i = Some n \<and> 15 < n")
    case True
    then obtain n where "top_n i = Some n" "15 < n" by blast
    with annotate_limit_over [of n payload] True show ?thesis
      by (simp add: opt_int_def)
  next
    case False
    then have "top_n i = None \<or> (\<exists>n. top_n i = Some n \<and> n \<le> 15)"
      by (cases "top_n i") auto
    from annotate_limit_under [OF this, of payload] False show ?thesis by auto
  qed
  have "fst (route_intent svc i) = [c]"
    by (simp add: r fetch_def)
  moreover have "snd (route_intent svc i) = Inl e" if "svc c = Inl e" for e
    using that by (simp add: r fetch_def)
  moreover have "\<exists>r. snd (route_intent svc i) = Inr r \<and> routed_intent r = i \<and>
               (if \<exists>n. top_n i = Some n \<and> 15 < n
                then dict_get (data r) ''limitRequested'' = opt_int (top_n i) \<and>
                     dict_get (data r) ''limitApplied'' = JInt 15 \<and>
                     (\<forall>k. k \<noteq> ''limitRequested'' \<and> k \<noteq> ''limitApplied'' \<longrightarrow>
                          dict_get (data r) k = dict_get payload k)
                else data r = payload)"
    if "svc c = Inr payload" for payload
  proof -
    let ?r = "\<lparr>routed_intent = i, data = annotate_limit (top_n i) payload\<rparr>"
    from that have s: "snd (route_intent svc i) = Inr ?r"
      by (simp add: r fetch_def)
    show ?thesis
    proof (intro exI [of _ ?r] conjI)
      show "snd (route_intent svc i) = Inr ?r" by (rule s)
      show "routed_intent ?r = i" by simp
      show "if \<exists>n. top_n i = Some n \<and> 15 < n
                then dict_get (data ?r) ''limitRequested'' = opt_int (top_n i) \<and>
                     dict_get (data ?r) ''limitApplied'' = JInt 15 \<and>
                     (\<forall>k. k \<noteq> ''limitRequested'' \<and> k \<noteq> ''limitApplied'' \<longrightarrow>
                          dict_get (data ?r) k = dict_get payload k)
                else data ?r = payload"
        using a [of payload] by simp
    qed
  qed
  ultimately show ?thesis by blast
qed

theorem route_top_n_clamps_witness:
  "fst (route_intent (\<lambda>c. Inr [(''limit'', JInt 15), (''metrics'', JList [])])
     \<lparr>intent = ''business_metric'', customer_id = None, product_id = None,
      metric = Some ''top_customers'', top_n = Some 50, date_range = None\<rparr>) =
     [GetTopCustomers 15 None None] \<and>
   (\<exists>r. snd (route_intent (\<lambda>c. Inr [(''limit'', JInt 15), (''metrics'', JList [])])
     \<lparr>intent = ''business_metric'', customer_id = None, product_id = None,
      metric = Some ''top_customers'', top_n = Some 50, date_range = None\<rparr>) = Inr r \<and>
      dict_get (data r) ''limitRequested'' = JInt 50 \<and>
      dict_get (data r) ''limitApplied'' = JInt 15 \<and>
      dict_get (data r) ''limit'' = JInt 15) \<and>
   fst (route_intent (\<lambda>c. Inr [(''limit'', JInt 10), (''metrics'', JList [])])
     \<lparr>intent = ''business_metric'', customer_id = None, product_id = None,
      metric = Some ''top_products'', top_n = Some 10, date_range = None\<rparr>) =
     [GetTopProducts 10 None None] \<and>
   (\<exists>r. snd (route_intent (\<lambda>c. Inr [(''limit'', JInt 10), (''metrics'', JList [])])
     \<lparr>intent = ''business_metric'', customer_id = None, product_id = None,
      metric = Some ''top_products'', top_n = Some 10, date_range = None\<rparr>) = Inr r \<and>
      data r = [(''limit'', JInt 10), (''metrics'', JList [])]) \<and>
   fst (route_intent (\<lambda>c. Inr [(''limit'', JInt 5), (''metrics'', JList [])])
     \<lparr>intent = ''business_metric'', customer_id = None, product_id = None,
      metric = Some ''top_customers'', top_n = None, date_range = None\<rparr>) =
     [GetTopCustomers 5 None None]"
proof -
  let ?i50 = "\<lparr>intent = ''business_metric'', customer_id = None, product_id = None,
      metric = Some ''top_customers'', top_n = Some 50, date_range = None\<rparr>"
  let ?i10 = "\<lparr>intent = ''business_metric'', customer_id = None, product_id = None,
      metric = Some ''top_products'', top_n = Some 10, date_range = None\<rparr>"
  let ?i5 = "\<lparr>intent = ''business_metric'', customer_id = None, product_id = None,
      metric = Some ''top_customers'', top_n = None, date_range = None\<rparr>"
  let ?s15 = "\<lambda>c::call. Inr [(''limit'', JInt 15), (''metrics'', JList [])] :: error + dict"
  let ?s10 = "\<lambda>c::call. Inr [(''limit'', JInt 10), (''metrics'', JList [])] :: error + dict"
  let ?s5 = "\<lambda>c::call. Inr [(''limit'', JInt 5), (''metrics'', JList [])] :: error + dict"
  have d: "interpret_date_range None = (None, None)"
    by (simp add: interpret_date_range_def)
  have c: "lower (strip ''top_customers'') = ''top_customers''"
    by code_simp
  have p: "lower (strip ''top_products'') = ''top_products''"
    by code_simp
  have "fst (route_intent ?s15 ?i50) = [GetTopCustomers 15 None None] \<and>
        (\<exists>r. snd (route_intent ?s15 ?i50) = Inr r \<and>
            dict_get (data r) ''limitRequested'' = JInt 50 \<and>
            dict_get (data r) ''limitApplied'' = JInt 15 \<and>
            dict_get (data r) ''limit'' = JInt 15)"
  proof -
    from route_top_n_clamps [of ?i50 "''top_customers''" None None 15
        "GetTopCustomers 15 None None" ?s15] c d
    obtain r where f: "fst (route_intent ?s15 ?i50) = [GetTopCustomers 15 None None]"
      and r: "snd (route_intent ?s15 ?i50) = Inr r"
      and q: "dict_get (data r) ''limitRequested'' = JInt 50"
      and a: "dict_get (data r) ''limitApplied'' = JInt 15"
      and k: "\<And>k. k \<noteq> ''limitRequested'' \<and> k \<noteq> ''limitApplied'' \<Longrightarrow>
            dict_get (data r) k = dict_get [(''limit'', JInt 15), (''metrics'', JList [])] k"
      by (auto simp: opt_int_def)
    from k [of "''limit''"] have "dict_get (data r) ''limit'' = JInt 15"
      by (simp add: dict_get_def)
    with f r q a show ?thesis by blast
  qed
  moreover have "fst (route_intent ?s10 ?i10) = [GetTopProducts 10 None None] \<and>
        (\<exists>r. snd (route_intent ?s10 ?i10) = Inr r \<and>
            data r = [(''limit'', JInt 10), (''metrics'', JList [])])"
  proof -
    from route_top_n_clamps [of ?i10 "''top_products''" None None 10
        "GetTopProducts 10 None None" ?s10] p d
    obtain r where "fst (route_intent ?s10 ?i10) = [GetTopProducts 10 None None]"
      and "snd (route_intent ?s10 ?i10) = Inr r"
      and "data r = [(''limit'', JInt 10), (''metrics'', JList [])]"
      by auto
    then show ?thesis by blast
  qed
  moreover have "fst (route_intent ?s5 ?i5) = [GetTopCustomers 5 None None]"
    using route_top_n_clamps [of ?i5 "''top_customers''" None None 5
        "GetTopCustomers 5 None None" ?s5] c d
    by simp
  ultimately show ?thesis by blast
qed

section \<open>Routing: customer and product payloads\<close>

text \<open>
  C1, as stated: whenever the fetched customer payload has a list under
  \<open>transactions\<close>, the routed payload carries that list cut to 15 with the
  bookkeeping fields, and \<open>transactionsTruncated\<close> is \<open>False\<close> for a list of at most
  15. It does not for an empty list beside a \<open>None\<close> summary: the payload of a customer
  without transactions is answered with \<open>no_data\<close>, which has neither field.
\<close>

theorem route_customer_empty_list_counterexample:
  "dict_get [(''customerId'', JInt 999), (''transactions'', JList []), (''summary'', JNull),
             (''filters'', JDict [])] ''transactions'' = JList [] \<and>
   route_intent
     (\<lambda>c. Inr [(''customerId'', JInt 999), (''transactions'', JList []), (''summary'', JNull),
                (''filters'', JDict [])])
     \<lparr>intent = ''customer'', customer_id = Some 999, product_id = None, metric = None,
      top_n = None, date_range = None\<rparr> =
   ([GetCustomer 999 None None],
    Inr \<lparr>routed_intent =
           \<lparr>intent = ''customer'', customer_id = Some 999, product_id = None, metric = None,
            top_n = None, date_range = None\<rparr>,
         data = [(''status'', JStr ''no_data''), (''reason'', JStr ''no_customer_transactions''),
                 (''customerId'', JInt 999)]\<rparr>) \<and>
   dict_get [(''status'', JStr ''no_data''), (''reason'', JStr ''no_customer_transactions''),
             (''customerId'', JInt 999)] ''transactions'' \<noteq> JList [] \<and>
   dict_get [(''status'', JStr ''no_data''), (''reason'', JStr ''no_customer_transactions''),
             (''customerId'', JInt 999)] ''transactionsTruncated'' \<noteq> JBool False"
  by (simp add: route_intent_def fetch_def interpret_date_range_def dict_get_def)

text \<open>
  C1, amended: for a customer intent with \<open>customer_id\<close> present, if the fetched
  payload has a list of length \<open>L\<close> under \<open>transactions\<close>, and the list is not empty
  or the summary is not \<open>None\<close>, the routed payload has the first \<open>min(L, 15)\<close>
  entries under \<open>transactions\<close>, \<open>transactionCount = L\<close>, \<open>transactionsLimit = 15\<close>
  and \<open>transactionsTruncated = (L > 15)\<close>; for \<open>L \<le> 15\<close> the list is the fetched one.
  Every other field is as fetched.
\<close>

theorem route_customer_trims:
  assumes "intent i = ''customer''" and "customer_id i = Some cid"
    and "interpret_date_range (date_range i) = (date_from, date_to)"
    and "svc (GetCustomer cid date_from date_to) = Inr payload"
    and "dict_get payload ''transactions'' = JList ts"
    and "ts \<noteq> [] \<or> dict_get payload ''summary'' \<noteq> JNull"
  shows "\<exists>r. route_intent svc i = ([GetCustomer cid date_from date_to], Inr r) \<and>
             routed_intent r = i \<and>
             dict_get (data r) ''transactions'' = JList (take (min (length ts) 15) ts) \<and>
             dict_get (data r) ''transactionCount'' = JInt (int (length ts)) \<and>
             dict_get (data r) ''transactionsLimit'' = JInt 15 \<and>
             dict_get (data r) ''transactionsTruncated'' = JBool (length ts > 15) \<and>
             (length ts \<le> 15 \<longrightarrow> dict_get (data r) ''transactions'' = JList ts) \<and>
             (\<forall>k. k \<noteq> ''transactions'' \<and> k \<noteq> ''transactionCount'' \<and>
                  k \<noteq> ''transactionsLimit'' \<and> k \<noteq> ''transactionsTruncated'' \<longrightarrow>
                  dict_get (data r) k = dict_get payload k)"
proof -
  let ?r = "\<lparr>routed_intent = i, data = trim_transactions payload ts\<rparr>"
  have t: "take (min (length ts) 15) ts = take 15 ts"
    by (cases "length ts \<le> 15") (simp_all add: min_def)
  show ?thesis
  proof (intro exI [of _ ?r] conjI)
    show "route_intent svc i = ([GetCustomer cid date_from date_to], Inr ?r)"
      using assms by (rule route_customer)
  qed (simp_all add: trim_transactions_get t)
qed

theorem route_customer_trims_witness:
  "\<exists>r. route_intent
      (\<lambda>c. Inr [(''customerId'', JInt 1),
                 (''transactions'',
                  JList [JInt 0, JInt 1, JInt 2, JInt 3, JInt 4, JInt 5, JInt 6, JInt 7, JInt 8,
                         JInt 9, JInt 10, JInt 11, JInt 12, JInt 13, JInt 14, JInt 15]),
                 (''summary'', JDict [(''transactionCount'', JInt 16)])])
      \<lparr>intent = ''customer'', customer_id = Some 1, product_id = None, metric = None,
       top_n = None, date_range = None\<rparr> = ([GetCustomer 1 None None], Inr r) \<and>
     dict_get (data r) ''transactions'' =
       JList [JInt 0, JInt 1, JInt 2, JInt 3, JInt 4, JInt 5, JInt 6, JInt 7, JInt 8,
              JInt 9, JInt 10, JInt 11, JInt 12, JInt 13, JInt 14] \<and>
     dict_get (data r) ''transactionCount'' = JInt 16 \<and>
     dict_get (data r) ''transactionsLimit'' = JInt 15 \<and>
     dict_get (data r) ''transactionsTruncated'' = JBool True \<and>
     dict_get (data r) ''customerId'' = JInt 1"
proof -
  let ?ts = "[JInt 0, JInt 1, JInt 2, JInt 3, JInt 4, JInt 5, JInt 6, JInt 7, JInt 8,
              JInt 9, JInt 10, JInt 11, JInt 12, JInt 13, JInt 14, JInt 15]"
  let ?payload = "[(''customerId'', JInt 1), (''transactions'', JList ?ts),
                   (''summary'', JDict [(''transactionCount'', JInt 16)])]"
  let ?i = "\<lparr>intent = ''customer'', customer_id = Some 1, product_id = None, metric = None,
       top_n = None, date_range = None\<rparr>"
  have d: "interpret_date_range (date_range ?i) = (None, None)"
    by (simp add: interpret_date_range_def)
  have g: "dict_get ?payload ''transactions'' = JList ?ts"
    by (simp add: dict_get_def)
  have c: "dict_get ?payload ''customerId'' = JInt 1"
    by (simp add: dict_get_def)
  have h1: "intent ?i = ''customer''" and h2: "customer_id ?i = Some 1"
    by simp_all
  have h4: "(\<lambda>c. Inr ?payload :: error + dict) (GetCustomer 1 None None) = Inr ?payload"
    by simp
  have h6: "?ts \<noteq> [] \<or> dict_get ?payload ''summary'' \<noteq> JNull"
    by simp
  from route_customer_trims [of ?i 1 None None "\<lambda>c. Inr ?payload" ?payload ?ts,
      OF h1 h2 d h4 g h6]
  obtain r where r: "route_intent (\<lambda>c. Inr ?payload) ?i = ([GetCustomer 1 None None], Inr r)"
    and t: "dict_get (data r) ''transactions'' = JList (take (min (length ?ts) 15) ?ts)"
    and n: "dict_get (data r) ''transactionCount'' = JInt (int (length ?ts))"
    and l: "dict_get (data r) ''transactionsLimit'' = JInt 15"
    and u: "dict_get (data r) ''transactionsTruncated'' = JBool (length ?ts > 15)"
    and k: "\<forall>k. k \<noteq> ''transactions'' \<and> k \<noteq> ''transactionCount'' \<and>
                  k \<noteq> ''transactionsLimit'' \<and> k \<noteq> ''transactionsTruncated'' \<longrightarrow>
                  dict_get (data r) k = dict_get ?payload k"
    by blast
  from k have "dict_get (data r) ''customerId'' = dict_get ?payload ''customerId''"
    by simp
  with c have c': "dict_get (data r) ''customerId'' = JInt 1"
    by simp
  from t have t': "dict_get (data r) ''transactions'' =
       JList [JInt 0, JInt 1, JInt 2, JInt 3, JInt 4, JInt 5, JInt 6, JInt 7, JInt 8,
              JInt 9, JInt 10, JInt 11, JInt 12, JInt 13, JInt 14]"
    by simp
  from n have n': "dict_get (data r) ''transactionCount'' = JInt 16"
    by simp
  from u have u': "dict_get (data r) ''transactionsTruncated'' = JBool True"
    by simp
  from r t' n' l u' c' show ?thesis by blast
qed

text \<open>
  C5: for a product intent with \<open>product_id\<close> present, if the fetched payload is
  empty, or its summary is absent or falsy (\<open>None\<close>, an empty dict), or the summary is
  a dict whose \<open>transactionCount\<close>, \<open>totalQuantity\<close> and \<open>totalRevenue\<close> are all
  falsy or absent, the result is \<open>no_data\<close> with reason \<open>no_product_transactions\<close>
  and the identifier under \<open>productId\<close>, and nothing of the summary (a list of stores
  included) is kept.
\<close>

theorem route_product_no_data:
  assumes "intent i = ''product''" and "product_id i = Some pid"
    and "interpret_date_range (date_range i) = (date_from, date_to)"
    and "svc (GetProduct pid date_from date_to) = Inr payload"
    and "payload = [] \<or> \<not> truthy (dict_get payload ''summary'') \<or>
         (\<exists>sm. dict_get payload ''summary'' = JDict sm \<and>
               \<not> truthy (dict_get sm ''transactionCount'') \<and>
               \<not> truthy (dict_get sm ''totalQuantity'') \<and>
               \<not> truthy (dict_get sm ''totalRevenue''))"
  shows "route_intent svc i =
           ([GetProduct pid date_from date_to],
            Inr \<lparr>routed_intent = i,
                  data = [(''status'', JStr ''no_data''),
                          (''reason'', JStr ''no_product_transactions''),
                          (''productId'', JStr pid)]\<rparr>)"
proof -
  let ?summary = "py_or (dict_get payload ''summary'') (JDict [])"
  let ?t = "trim_summary ?summary"
  have "payload = [] \<or> ?t = JDict [] \<or>
        (\<exists>t. ?t = JDict t \<and> \<not> truthy (dict_get t ''transactionCount'') \<and>
              \<not> truthy (dict_get t ''totalQuantity'') \<and> \<not> truthy (dict_get t ''totalRevenue''))"
  proof -
    consider "payload = []" | "\<not> truthy (dict_get payload ''summary'')"
      | sm where "truthy (dict_get payload ''summary'')" "dict_get payload ''summary'' = JDict sm"
          "\<not> truthy (dict_get sm ''transactionCount'')"
          "\<not> truthy (dict_get sm ''totalQuantity'')"
          "\<not> truthy (dict_get sm ''totalRevenue'')"
      using assms(5) by blast
    then show ?thesis
    proof cases
      case 1
      then show ?thesis by simp
    next
      case 2
      then show ?thesis by (simp add: py_or_def trim_summary_empty)
    next
      case 3
      then have s: "?summary = JDict sm" by (simp add: py_or_def)
      from trim_summary_get [of "''transactionCount''" sm]
        trim_summary_get [of "''totalQuantity''" sm]
        trim_summary_get [of "''totalRevenue''" sm]
      show ?thesis using 3 s by auto
    qed
  qed
  then show ?thesis
    unfolding route_product [where svc = svc and payload = payload, OF assms(1-4)]
    by (auto simp: Let_def)
qed

theorem route_product_no_data_witness:
  "route_intent
     (\<lambda>c. Inr [(''productId'', JStr ''A''), (''transactions'', JList []),
                (''summary'',
                 JDict [(''transactionCount'', JInt 0), (''totalQuantity'', JInt 0),
                        (''totalRevenue'', JFloat 0), (''stores'', JList [JStr ''Store 1''])]),
                (''filters'', JDict [])])
     \<lparr>intent = ''product'', customer_id = None, product_id = Some ''A'', metric = None,
      top_n = None, date_range = None\<rparr> =
   ([GetProduct ''A'' None None],
    Inr \<lparr>routed_intent =
           \<lparr>intent = ''product'', customer_id = None, product_id = Some ''A'', metric = None,
            top_n = None, date_range = None\<rparr>,
         data = [(''status'', JStr ''no_data''), (''reason'', JStr ''no_product_transactions''),
                 (''productId'', JStr ''A'')]\<rparr>)"
proof -
  let ?sm = "[(''transactionCount'', JInt 0), (''totalQuantity'', JInt 0),
              (''totalRevenue'', JFloat 0), (''stores'', JList [JStr ''Store 1''])]"
  let ?payload = "[(''productId'', JStr ''A''), (''transactions'', JList []),
                   (''summary'', JDict ?sm), (''filters'', JDict [])]"
  let ?i = "\<lparr>intent = ''product'', customer_id = None, product_id = Some ''A'', metric = None,
      top_n = None, date_range = None\<rparr>"
  have d: "interpret_date_range (date_range ?i) = (None, None)"
    by (simp add: interpret_date_range_def)
  have "dict_get ?payload ''summary'' = JDict ?sm \<and>
        \<not> truthy (dict_get ?sm ''transactionCount'') \<and>
        \<not> truthy (dict_get ?sm ''totalQuantity'') \<and>
        \<not> truthy (dict_get ?sm ''totalRevenue'')"
    by (simp add: dict_get_def)
  then have h: "?payload = [] \<or> \<not> truthy (dict_get ?payload ''summary'') \<or>
         (\<exists>sm. dict_get ?payload ''summary'' = JDict sm \<and>
               \<not> truthy (dict_get sm ''transactionCount'') \<and>
               \<not> truthy (dict_get sm ''totalQuantity'') \<and>
               \<not> truthy (dict_get sm ''totalRevenue''))"
    by blast
  from route_product_no_data [of ?i "''A''" None None "\<lambda>c. Inr ?payload" ?payload, OF _ _ d _ h]
  show ?thesis by simp
qed

section \<open>The chat endpoint\<close>

text \<open>
  With a request that carries a non-blank \<open>query\<close> string, \<open>chat\<close> is the three
  stages in sequence, each with its own handler.
\<close>

lemma chat_stages:
  assumes "dict_get payload ''query'' = JStr q" and "strip q \<noteq> []"
  shows "chat svc parse_intent generate_response (JDict payload) =
     (case parse_intent (strip q) of
        Inl exc \<Rightarrow>
          Inr (Response 400
                 [(''error'', JStr ''IntentParsingFailed''), (''message'', JStr (str_exc exc))])
      | Inr it \<Rightarrow>
          (case snd (route_intent svc it) of
             Inl exc \<Rightarrow>
               Inr (Response 400
                      [(''error'', JStr ''RoutingFailed''), (''message'', JStr (str_exc exc)),
                       (''intent'', JDict (model_dump it))])
           | Inr routed \<Rightarrow>
               (case generate_response (strip q) (to_dict routed) of
                  Inl exc \<Rightarrow>
                    Inr (Response 502
                           [(''error'', JStr ''ResponseGenerationFailed''),
                            (''message'', JStr (str_exc exc)),
                            (''intent'', JDict (model_dump it)),
                            (''data'', JDict (to_dict routed))])
                | Inr answer \<Rightarrow>
                    Inr (Response 200
                           [(''intent'', JDict (model_dump it)),
                            (''data'', JDict (to_dict routed)),
                            (''answer'', JStr answer)]))))"
proof -
  from assms(1) have "payload \<noteq> []" by (auto simp: dict_get_def)
  then have "py_or (JDict payload) (JDict []) = JDict payload"
    by (simp add: py_or_def)
  with assms show ?thesis
    by (simp add: chat_def Let_def split: sum.splits)
qed

text \<open>
  C7: for a request with a non-blank \<open>query\<close>, a failure of intent parsing is
  answered with status 400 and error \<open>IntentParsingFailed\<close>; a failure of routing with
  status 400, error \<open>RoutingFailed\<close> and the intent, field by field; a failure of
  response generation with status 502, error \<open>ResponseGenerationFailed\<close>, the intent
  and the routed data (the intent again and the payload of the router); and when all
  three succeed the answer is status 200 with the intent, the routed data and the
  answer. Each error payload carries the text of the exception.
\<close>

theorem chat_stage_failures:
  assumes "dict_get payload ''query'' = JStr q" and "strip q \<noteq> []"
  shows
    "(\<forall>exc. parse_intent (strip q) = Inl exc \<longrightarrow>
        chat svc parse_intent generate_response (JDict payload) =
          Inr (Response 400
                 [(''error'', JStr ''IntentParsingFailed''),
                  (''message'', JStr (str_exc exc))])) \<and>
     (\<forall>it exc. parse_intent (strip q) = Inr it \<and> snd (route_intent svc it) = Inl exc \<longrightarrow>
        chat svc parse_intent generate_response (JDict payload) =
          Inr (Response 400
                 [(''error'', JStr ''RoutingFailed''),
                  (''message'', JStr (str_exc exc)),
                  (''intent'',
                   JDict [(''intent'', JStr (intent it)),
                      (''customer_id'', (case customer_id it of None \<Rightarrow> JNull | Some x \<Rightarrow> JInt x)),
                      (''product_id'', (case product_id it of None \<Rightarrow> JNull | Some x \<Rightarrow> JStr x)),
                      (''metric'', (case metric it of None \<Rightarrow> JNull | Some x \<Rightarrow> JStr x)),
                      (''top_n'', (case top_n it of None \<Rightarrow> JNull | Some x \<Rightarrow> JInt x)),
                      (''date_range'', (case date_range it of None \<Rightarrow> JNull | Some x \<Rightarrow> JStr x))])])) \<and>
     (\<forall>it routed exc.
        parse_intent (strip q) = Inr it \<and> snd (route_intent svc it) = Inr routed \<and>
        generate_response (strip q)
          [(''intent'', JDict [(''intent'', JStr (intent it)),
                      (''customer_id'', (case customer_id it of None \<Rightarrow> JNull | Some x \<Rightarrow> JInt x)),
                      (''product_id'', (case product_id it of None \<Rightarrow> JNull | Some x \<Rightarrow> JStr x)),
                      (''metric'', (case metric it of None \<Rightarrow> JNull | Some x \<Rightarrow> JStr x)),
                      (''top_n'', (case top_n it of None \<Rightarrow> JNull | Some x \<Rightarrow> JInt x)),
                      (''date_range'', (case date_range it of None \<Rightarrow> JNull | Some x \<Rightarrow> JStr x))]), (''data'', JDict (data routed))] = Inl exc \<longrightarrow>
        chat svc parse_intent generate_response (JDict payload) =
          Inr (Response 502
                 [(''error'', JStr ''ResponseGenerationFailed''),
                  (''message'', JStr (str_exc exc)),
                  (''intent'', JDict [(''intent'', JStr (intent it)),
                      (''customer_id'', (case customer_id it of None \<Rightarrow> JNull | Some x \<Rightarrow> JInt x)),
                      (''product_id'', (case product_id it of None \<Rightarrow> JNull | Some x \<Rightarrow> JStr x)),
                      (''metric'', (case metric it of None \<Rightarrow> JNull | Some x \<Rightarrow> JStr x)),
                      (''top_n'', (case top_n it of None \<Rightarrow> JNull | Some x \<Rightarrow> JInt x)),
                      (''date_range'', (case date_range it of None \<Rightarrow> JNull | Some x \<Rightarrow> JStr x))]),
                  (''data'',
                   JDict [(''intent'', JDict [(''intent'', JStr (intent it)),
                      (''customer_id'', (case customer_id it of None \<Rightarrow> JNull | Some x \<Rightarrow> JInt x)),
                      (''product_id'', (case product_id it of None \<Rightarrow> JNull | Some x \<Rightarrow> JStr x)),
                      (''metric'', (case metric it of None \<Rightarrow> JNull | Some x \<Rightarrow> JStr x)),
                      (''top_n'', (case top_n it of None \<Rightarrow> JNull | Some x \<Rightarrow> JInt x)),
                      (''date_range'', (case date_range it of None \<Rightarrow> JNull | Some x \<Rightarrow> JStr x))]), (''data'', JDict (data routed))])])) \<and>
     (\<forall>it routed answer.
        parse_intent (strip q) = Inr it \<and> snd (route_intent svc it) = Inr routed \<and>
        generate_response (strip q)
          [(''intent'', JDict [(''intent'', JStr (intent it)),
                      (''customer_id'', (case customer_id it of None \<Rightarrow> JNull | Some x \<Rightarrow> JInt x)),
                      (''product_id'', (case product_id it of None \<Rightarrow> JNull | Some x \<Rightarrow> JStr x)),
                      (''metric'', (case metric it of None \<Rightarrow> JNull | Some x \<Rightarrow> JStr x)),
                      (''top_n'', (case top_n it of None \<Rightarrow> JNull | Some x \<Rightarrow> JInt x)),
                      (''date_range'', (case date_range it of None \<Rightarrow> JNull | Some x \<Rightarrow> JStr x))]), (''data'', JDict (data routed))] = Inr answer \<longrightarrow>
        chat svc parse_intent generate_response (JDict payload) =
          Inr (Response 200
                 [(''intent'', JDict [(''intent'', JStr (intent it)),
                      (''customer_id'', (case customer_id it of None \<Rightarrow> JNull | Some x \<Rightarrow> JInt x)),
                      (''product_id'', (case product_id it of None \<Rightarrow> JNull | Some x \<Rightarrow> JStr x)),
                      (''metric'', (case metric it of None \<Rightarrow> JNull | Some x \<Rightarrow> JStr x)),
                      (''top_n'', (case top_n it of None \<Rightarrow> JNull | Some x \<Rightarrow> JInt x)),
                      (''date_range'', (case date_range it of None \<Rightarrow> JNull | Some x \<Rightarrow> JStr x))]),
                  (''data'',
                   JDict [(''intent'', JDict [(''intent'', JStr (intent it)),
                      (''customer_id'', (case customer_id it of None \<Rightarrow> JNull | Some x \<Rightarrow> JInt x)),
                      (''product_id'', (case product_id it of None \<Rightarrow> JNull | Some x \<Rightarrow> JStr x)),
                      (''metric'', (case metric it of None \<Rightarrow> JNull | Some x \<Rightarrow> JStr x)),
                      (''top_n'', (case top_n it of None \<Rightarrow> JNull | Some x \<Rightarrow> JInt x)),
                      (''date_range'', (case date_range it of None \<Rightarrow> JNull | Some x \<Rightarrow> JStr x))]), (''data'', JDict (data routed))]),
                  (''answer'', JStr answer)]))"
proof (intro conjI allI impI)
  fix exc
  assume "parse_intent (strip q) = Inl exc"
  then show "chat svc parse_intent generate_response (JDict payload) =
          Inr (Response 400
                 [(''error'', JStr ''IntentParsingFailed''),
                  (''message'', JStr (str_exc exc))])"
    unfolding chat_stages [OF assms] by simp
next
  fix it exc
  assume "parse_intent (strip q) = Inr it \<and> snd (route_intent svc it) = Inl exc"
  then show "chat svc parse_intent generate_response (JDict payload) =
          Inr (Response 400
                 [(''error'', JStr ''RoutingFailed''),
                  (''message'', JStr (str_exc exc)),
                  (''intent'',
                   JDict [(''intent'', JStr (intent it)),
                      (''customer_id'', (case customer_id it of None \<Rightarrow> JNull | Some x \<Rightarrow> JInt x)),
                      (''product_id'', (case product_id it of None \<Rightarrow> JNull | Some x \<Rightarrow> JStr x)),
                      (''metric'', (case metric it of None \<Rightarrow> JNull | Some x \<Rightarrow> JStr x)),
                      (''top_n'', (case top_n it of None \<Rightarrow> JNull | Some x \<Rightarrow> JInt x)),
                      (''date_range'', (case date_range it of None \<Rightarrow> JNull | Some x \<Rightarrow> JStr x))])])"
    unfolding chat_stages [OF assms] by (simp add: model_dump_def opt_int_def opt_str_def)
next
  fix it routed exc
  assume a: "parse_intent (strip q) = Inr it \<and> snd (route_intent svc it) = Inr routed \<and>
        generate_response (strip q)
          [(''intent'', JDict [(''intent'', JStr (intent it)),
                      (''customer_id'', (case customer_id it of None \<Rightarrow> JNull | Some x \<Rightarrow> JInt x)),
                      (''product_id'', (case product_id it of None \<Rightarrow> JNull | Some x \<Rightarrow> JStr x)),
                      (''metric'', (case metric it of None \<Rightarrow> JNull | Some x \<Rightarrow> JStr x)),
                      (''top_n'', (case top_n it of None \<Rightarrow> JNull | Some x \<Rightarrow> JInt x)),
                      (''date_range'', (case date_range it of None \<Rightarrow> JNull | Some x \<Rightarrow> JStr x))]), (''data'', JDict (data routed))] = Inl exc"
  then have "routed_intent routed = it"
    using route_intent_keeps_intent [of svc it routed] by simp
  then have "to_dict routed = [(''intent'', JDict [(''intent'', JStr (intent it)),
                      (''customer_id'', (case customer_id it of None \<Rightarrow> JNull | Some x \<Rightarrow> JInt x)),
                      (''product_id'', (case product_id it of None \<Rightarrow> JNull | Some x \<Rightarrow> JStr x)),
                      (''metric'', (case metric it of None \<Rightarrow> JNull | Some x \<Rightarrow> JStr x)),
                      (''top_n'', (case top_n it of None \<Rightarrow> JNull | Some x \<Rightarrow> JInt x)),
                      (''date_range'', (case date_range it of None \<Rightarrow> JNull | Some x \<Rightarrow> JStr x))]), (''data'', JDict (data routed))]"
    by (simp add: to_dict_def model_dump_def opt_int_def opt_str_def)
  with a show "chat svc parse_intent generate_response (JDict payload) =
          Inr (Response 502
                 [(''error'', JStr ''ResponseGenerationFailed''),
                  (''message'', JStr (str_exc exc)),
                  (''intent'', JDict [(''intent'', JStr (intent it)),
                      (''customer_id'', (case customer_id it of None \<Rightarrow> JNull | Some x \<Rightarrow> JInt x)),
                      (''product_id'', (case product_id it of None \<Rightarrow> JNull | Some x \<Rightarrow> JStr x)),
                      (''metric'', (case metric it of None \<Rightarrow> JNull | Some x \<Rightarrow> JStr x)),
                      (''top_n'', (case top_n it of None \<Rightarrow> JNull | Some x \<Rightarrow> JInt x)),
                      (''date_range'', (case date_range it of None \<Rightarrow> JNull | Some x \<Rightarrow> JStr x))]),
                  (''data'',
                   JDict [(''intent'', JDict [(''intent'', JStr (intent it)),
                      (''customer_id'', (case customer_id it of None \<Rightarrow> JNull | Some x \<Rightarrow> JInt x)),
                      (''product_id'', (case product_id it of None \<Rightarrow> JNull | Some x \<Rightarrow> JStr x)),
                      (''metric'', (case metric it of None \<Rightarrow> JNull | Some x \<Rightarrow> JStr x)),
                      (''top_n'', (case top_n it of None \<Rightarrow> JNull | Some x \<Rightarrow> JInt x)),
                      (''date_range'', (case date_range it of None \<Rightarrow> JNull | Some x \<Rightarrow> JStr x))]), (''data'', JDict (data routed))])])"
    unfolding chat_stages [OF assms] by (simp add: model_dump_def opt_int_def opt_str_def)
next
  fix it routed answer
  assume a: "parse_intent (strip q) = Inr it \<and> snd (route_intent svc it) = Inr routed \<and>
        generate_response (strip q)
          [(''intent'', JDict [(''intent'', JStr (intent it)),
                      (''customer_id'', (case customer_id it of None \<Rightarrow> JNull | Some x \<Rightarrow> JInt x)),
                      (''product_id'', (case product_id it of None \<Rightarrow> JNull | Some x \<Rightarrow> JStr x)),
                      (''metric'', (case metric it of None \<Rightarrow> JNull | Some x \<Rightarrow> JStr x)),
                      (''top_n'', (case top_n it of None \<Rightarrow> JNull | Some x \<Rightarrow> JInt x)),
                      (''date_range'', (case date_range it of None \<Rightarrow> JNull | Some x \<Rightarrow> JStr x))]), (''data'', JDict (data routed))] = Inr answer"
  then have "routed_intent routed = it"
    using route_intent_keeps_intent [of svc it routed] by simp
  then have "to_dict routed = [(''intent'', JDict [(''intent'', JStr (intent it)),
                      (''customer_id'', (case customer_id it of None \<Rightarrow> JNull | Some x \<Rightarrow> JInt x)),
                      (''product_id'', (case product_id it of None \<Rightarrow> JNull | Some x \<Rightarrow> JStr x)),
                      (''metric'', (case metric it of None \<Rightarrow> JNull | Some x \<Rightarrow> JStr x)),
                      (''top_n'', (case top_n it of None \<Rightarrow> JNull | Some x \<Rightarrow> JInt x)),
                      (''date_range'', (case date_range it of None \<Rightarrow> JNull | Some x \<Rightarrow> JStr x))]), (''data'', JDict (data routed))]"
    by (simp add: to_dict_def model_dump_def opt_int_def opt_str_def)
  with a show "chat svc parse_intent generate_response (JDict payload) =
          Inr (Response 200
                 [(''intent'', JDict [(''intent'', JStr (intent it)),
                      (''customer_id'', (case customer_id it of None \<Rightarrow> JNull | Some x \<Rightarrow> JInt x)),
                      (''product_id'', (case product_id it of None \<Rightarrow> JNull | Some x \<Rightarrow> JStr x)),
                      (''metric'', (case metric it of None \<Rightarrow> JNull | Some x \<Rightarrow> JStr x)),
                      (''top_n'', (case top_n it of None \<Rightarrow> JNull | Some x \<Rightarrow> JInt x)),
                      (''date_range'', (case date_range it of None \<Rightarrow> JNull | Some x \<Rightarrow> JStr x))]),
                  (''data'',
                   JDict [(''intent'', JDict [(''intent'', JStr (intent it)),
                      (''customer_id'', (case customer_id it of None \<Rightarrow> JNull | Some x \<Rightarrow> JInt x)),
                      (''product_id'', (case product_id it of None \<Rightarrow> JNull | Some x \<Rightarrow> JStr x)),
                      (''metric'', (case metric it of None \<Rightarrow> JNull | Some x \<Rightarrow> JStr x)),
                      (''top_n'', (case top_n it of None \<Rightarrow> JNull | Some x \<Rightarrow> JInt x)),
                      (''date_range'', (case date_range it of None \<Rightarrow> JNull | Some x \<Rightarrow> JStr x))]), (''data'', JDict (data routed))]),
                  (''answer'', JStr answer)])"
    unfolding chat_stages [OF assms] by (simp add: model_dump_def opt_int_def opt_str_def)
qed


theorem chat_stage_failures_witness:
  "chat (\<lambda>c. Inl (DataServiceError ''API request failed: 500''))
     (\<lambda>u. Inl (OtherError ''LLM returned empty response while parsing intent.''))
     (\<lambda>u d. Inr ''Which customer do you mean?'')
     (JDict [(''query'', JStr '' customer 1 '')]) =
   Inr (Response 400
          [(''error'', JStr ''IntentParsingFailed''),
           (''message'', JStr ''LLM returned empty response while parsing intent.'')]) \<and>
   chat (\<lambda>c. Inl (DataServiceError ''API request failed: 500''))
     (\<lambda>u. Inr \<lparr>intent = ''customer'', customer_id = Some 1, product_id = None,
               metric = None, top_n = None, date_range = None\<rparr>)
     (\<lambda>u d. Inr ''Which customer do you mean?'')
     (JDict [(''query'', JStr '' customer 1 '')]) =
   Inr (Response 400
          [(''error'', JStr ''RoutingFailed''),
           (''message'', JStr ''API request failed: 500''),
           (''intent'', JDict [(''intent'', JStr ''customer''), (''customer_id'', JInt 1), (''product_id'', JNull),
                   (''metric'', JNull), (''top_n'', JNull), (''date_range'', JNull)])]) \<and>
   chat (\<lambda>c. Inl (DataServiceError ''API request failed: 500''))
     (\<lambda>u. Inr \<lparr>intent = ''customer'', customer_id = None, product_id = None,
               metric = None, top_n = None, date_range = None\<rparr>)
     (\<lambda>u d. Inl (OtherError ''LLM returned empty response for answer generation.''))
     (JDict [(''query'', JStr '' customer 1 '')]) =
   Inr (Response 502
          [(''error'', JStr ''ResponseGenerationFailed''),
           (''message'', JStr ''LLM returned empty response for answer generation.''),
           (''intent'', JDict [(''intent'', JStr ''customer''), (''customer_id'', JNull), (''product_id'', JNull),
                   (''metric'', JNull), (''top_n'', JNull), (''date_range'', JNull)]),
           (''data'', JDict [(''intent'', JDict [(''intent'', JStr ''customer''), (''customer_id'', JNull), (''product_id'', JNull),
                   (''metric'', JNull), (''top_n'', JNull), (''date_range'', JNull)]),
                   (''data'',
                    JDict [(''status'', JStr ''ambiguous_intent''),
                           (''reason'', JStr ''customer_id_missing'')])])]) \<and>
   chat (\<lambda>c. Inl (DataServiceError ''API request failed: 500''))
     (\<lambda>u. Inr \<lparr>intent = ''customer'', customer_id = None, product_id = None,
               metric = None, top_n = None, date_range = None\<rparr>)
     (\<lambda>u d. Inr ''Which customer do you mean?'')
     (JDict [(''query'', JStr '' customer 1 '')]) =
   Inr (Response 200
          [(''intent'', JDict [(''intent'', JStr ''customer''), (''customer_id'', JNull), (''product_id'', JNull),
                   (''metric'', JNull), (''top_n'', JNull), (''date_range'', JNull)]),
           (''data'', JDict [(''intent'', JDict [(''intent'', JStr ''customer''), (''customer_id'', JNull), (''product_id'', JNull),
                   (''metric'', JNull), (''top_n'', JNull), (''date_range'', JNull)]),
                   (''data'',
                    JDict [(''status'', JStr ''ambiguous_intent''),
                           (''reason'', JStr ''customer_id_missing'')])]),
           (''answer'', JStr ''Which customer do you mean?'')])"
proof -
  let ?down = "\<lambda>c::call. Inl (DataServiceError ''API request failed: 500'') :: error + dict"
  let ?i1 = "\<lparr>intent = ''customer'', customer_id = Some 1, product_id = None,
               metric = None, top_n = None, date_range = None\<rparr>"
  let ?i0 = "\<lparr>intent = ''customer'', customer_id = None, product_id = None,
               metric = None, top_n = None, date_range = None\<rparr>"
  let ?r0 = "\<lparr>routed_intent = ?i0,
               data = [(''status'', JStr ''ambiguous_intent''),
                       (''reason'', JStr ''customer_id_missing'')]\<rparr>"
  let ?p = "[(''query'', JStr '' customer 1 '')]"
  let ?no_parse = "\<lambda>u::string.
      Inl (OtherError ''LLM returned empty response while parsing intent.'') :: error + Intent"
  let ?no_answer = "\<lambda>(u::string) (d::dict).
      Inl (OtherError ''LLM returned empty response for answer generation.'') :: error + string"
  let ?answer = "\<lambda>(u::string) (d::dict). Inr ''Which customer do you mean?'' :: error + string"
  have q: "dict_get ?p ''query'' = JStr '' customer 1 ''"
    by (simp add: dict_get_def)
  have s: "strip '' customer 1 '' \<noteq> []"
    by (simp add: strip_def isspace_def)
  have r1: "snd (route_intent ?down ?i1) = Inl (DataServiceError ''API request failed: 500'')"
    by (simp add: route_intent_def fetch_def interpret_date_range_def)
  have r0: "snd (route_intent ?down ?i0) = Inr ?r0"
    by (simp add: route_intent_def)
  from chat_stage_failures [OF q s, of ?no_parse ?down ?answer]
  have c1: "chat ?down ?no_parse ?answer (JDict ?p) =
      Inr (Response 400
             [(''error'', JStr ''IntentParsingFailed''),
              (''message'', JStr ''LLM returned empty response while parsing intent.'')])"
    by simp
  from chat_stage_failures [OF q s, of "\<lambda>u. Inr ?i1" ?down ?answer] r1
  have c2: "chat ?down (\<lambda>u. Inr ?i1) ?answer (JDict ?p) =
      Inr (Response 400
             [(''error'', JStr ''RoutingFailed''),
              (''message'', JStr ''API request failed: 500''),
              (''intent'', JDict [(''intent'', JStr ''customer''), (''customer_id'', JInt 1), (''product_id'', JNull),
                   (''metric'', JNull), (''top_n'', JNull), (''date_range'', JNull)])])"
    by (simp add: opt_int_def opt_str_def)
  from chat_stage_failures [OF q s, of "\<lambda>u. Inr ?i0" ?down ?no_answer] r0
  have c3: "chat ?down (\<lambda>u. Inr ?i0) ?no_answer (JDict ?p) =
      Inr (Response 502
             [(''error'', JStr ''ResponseGenerationFailed''),
              (''message'', JStr ''LLM returned empty response for answer generation.''),
              (''intent'', JDict [(''intent'', JStr ''customer''), (''customer_id'', JNull), (''product_id'', JNull),
                   (''metric'', JNull), (''top_n'', JNull), (''date_range'', JNull)]),
              (''data'', JDict [(''intent'', JDict [(''intent'', JStr ''customer''), (''customer_id'', JNull), (''product_id'', JNull),
                   (''metric'', JNull), (''top_n'', JNull), (''date_range'', JNull)]),
                   (''data'',
                    JDict [(''status'', JStr ''ambiguous_intent''),
                           (''reason'', JStr ''customer_id_missing'')])])])"
    by (simp add: opt_int_def opt_str_def)
  from chat_stage_failures [OF q s, of "\<lambda>u. Inr ?i0" ?down ?answer] r0
  have c4: "chat ?down (\<lambda>u. Inr ?i0) ?answer (JDict ?p) =
      Inr (Response 200
             [(''intent'', JDict [(''intent'', JStr ''customer''), (''customer_id'', JNull), (''product_id'', JNull),
                   (''metric'', JNull), (''top_n'', JNull), (''date_range'', JNull)]),
              (''data'', JDict [(''intent'', JDict [(''intent'', JStr ''customer''), (''customer_id'', JNull), (''product_id'', JNull),
                   (''metric'', JNull), (''top_n'', JNull), (''date_range'', JNull)]),
                   (''data'',
                    JDict [(''status'', JStr ''ambiguous_intent''),
                           (''reason'', JStr ''customer_id_missing'')])]),
              (''answer'', JStr ''Which customer do you mean?'')])"
    by (simp add: opt_int_def opt_str_def)
  from c1 c2 c3 c4 show ?thesis by (intro conjI)
qed

section \<open>Intent validation\<close>

text \<open>The dump of an \<open>Intent\<close> with one of the three kinds validates to that \<open>Intent\<close>.\<close>

lemma validate_opt_int_dump: "validate_opt_int conv (Some (opt_int x)) = Inr x"
  by (cases x) (simp_all add: validate_opt_int_def opt_int_def)

lemma validate_opt_str_dump: "validate_opt_str (Some (opt_str x)) = Inr x"
  by (cases x) (simp_all add: validate_opt_str_def opt_str_def)

lemma model_validate_dump:
  assumes "intent i = ''customer'' \<or> intent i = ''product'' \<or> intent i = ''business_metric''"
  shows "model_validate conv (JDict (model_dump i)) = Inr i"
proof -
  have "validate_literal (Some (JStr (intent i))) = Inr (intent i)"
    using assms by (auto simp: validate_literal_def)
  then show ?thesis
    by (simp add: model_validate_def model_dump_def validate_opt_int_dump validate_opt_str_dump)
qed

text \<open>What each field validator accepts, and with which value.\<close>

lemma validate_literal_iff:
  "validate_literal v = Inr k \<longleftrightarrow>
     v = Some (JStr k) \<and> (k = ''customer'' \<or> k = ''product'' \<or> k = ''business_metric'')"
  by (auto simp: validate_literal_def split: option.splits json.splits)

lemma validate_opt_int_iff:
  "validate_opt_int conv v = Inr x \<longleftrightarrow>
     (x = None \<and> (v = None \<or> v = Some JNull)) \<or>
     (\<exists>n. x = Some n \<and>
        (v = Some (JInt n) \<or>
         (\<exists>y. v = Some y \<and> y \<noteq> JNull \<and> (\<forall>m. y \<noteq> JInt m) \<and> conv y = Some n)))"
  by (auto simp: validate_opt_int_def split: option.splits json.splits)

lemma validate_opt_str_iff:
  "validate_opt_str v = Inr x \<longleftrightarrow>
     (x = None \<and> (v = None \<or> v = Some JNull)) \<or>
     (\<exists>s. x = Some s \<and> v = Some (JStr s))"
  by (auto simp: validate_opt_str_def split: option.splits json.splits)

lemma model_validate_fields:
  "model_validate conv (JDict d) = Inr i \<longleftrightarrow>
     validate_literal (map_of d ''intent'') = Inr (intent i) \<and>
     validate_opt_int conv (map_of d ''customer_id'') = Inr (customer_id i) \<and>
     validate_opt_str (map_of d ''product_id'') = Inr (product_id i) \<and>
     validate_opt_str (map_of d ''metric'') = Inr (metric i) \<and>
     validate_opt_int conv (map_of d ''top_n'') = Inr (top_n i) \<and>
     validate_opt_str (map_of d ''date_range'') = Inr (date_range i)"
  by (cases i) (auto simp: model_validate_def split: sum.splits)

lemma model_validate_not_dict:
  "\<forall>d. candidate \<noteq> JDict d \<Longrightarrow> model_validate conv candidate = Inl ValidationError"
  by (cases candidate) (simp_all add: model_validate_def)

text \<open>
  C8, as stated: validation accepts a candidate exactly when it conforms to the data
  model, so it fails on a negative \<open>customer_id\<close> and on an empty \<open>product_id\<close>. It
  does not: the class declares the two fields as \<open>Optional[int]\<close> and
  \<open>Optional[str]\<close> without a bound, and both candidates are accepted.
\<close>

theorem model_validate_unconstrained_counterexample:
  "\<not> spec_conforms (JDict [(''intent'', JStr ''customer''), (''customer_id'', JInt (- 1))]) \<and>
   model_validate (\<lambda>x. None)
     (JDict [(''intent'', JStr ''customer''), (''customer_id'', JInt (- 1))]) =
     Inr \<lparr>intent = ''customer'', customer_id = Some (- 1), product_id = None, metric = None,
          top_n = None, date_range = None\<rparr> \<and>
   \<not> spec_conforms (JDict [(''intent'', JStr ''product''), (''product_id'', JStr [])]) \<and>
   model_validate (\<lambda>x. None)
     (JDict [(''intent'', JStr ''product''), (''product_id'', JStr [])]) =
     Inr \<lparr>intent = ''product'', customer_id = None, product_id = Some [], metric = None,
          top_n = None, date_range = None\<rparr>"
  by (simp add: spec_conforms_def model_validate_def validate_literal_def
      validate_opt_int_def validate_opt_str_def)

text \<open>
  C8, amended: validation accepts a candidate, with the \<open>Intent\<close> it yields, exactly
  when the candidate is an object whose \<open>intent\<close> is one of the strings \<open>customer\<close>,
  \<open>product\<close>, \<open>business_metric\<close> and each other field is absent or null (giving
  \<open>None\<close>) or holds a value of its declared type: a string for \<open>product_id\<close>,
  \<open>metric\<close> and \<open>date_range\<close>, an integer or a value convertible to one for
  \<open>customer_id\<close> and \<open>top_n\<close>. In every other case it fails with a validation error.
  Nothing else is checked: no sign, no emptiness, no other key, no field against
  another.
\<close>

theorem model_validate_declared_types:
  "(model_validate conv candidate = Inr i \<longleftrightarrow>
      (\<exists>d. candidate = JDict d \<and>
         map_of d ''intent'' = Some (JStr (intent i)) \<and>
         (intent i = ''customer'' \<or> intent i = ''product'' \<or> intent i = ''business_metric'') \<and>
         ((customer_id i = None \<and> (map_of d ''customer_id'' = None \<or> map_of d ''customer_id'' = Some JNull)) \<or>
          (\<exists>n. customer_id i = Some n \<and>
             (map_of d ''customer_id'' = Some (JInt n) \<or>
              (\<exists>v. map_of d ''customer_id'' = Some v \<and> v \<noteq> JNull \<and> (\<forall>m. v \<noteq> JInt m) \<and>
                   conv v = Some n)))) \<and>
         ((product_id i = None \<and> (map_of d ''product_id'' = None \<or> map_of d ''product_id'' = Some JNull)) \<or>
          (\<exists>s. product_id i = Some s \<and> map_of d ''product_id'' = Some (JStr s))) \<and>
         ((metric i = None \<and> (map_of d ''metric'' = None \<or> map_of d ''metric'' = Some JNull)) \<or>
          (\<exists>s. metric i = Some s \<and> map_of d ''metric'' = Some (JStr s))) \<and>
         ((top_n i = None \<and> (map_of d ''top_n'' = None \<or> map_of d ''top_n'' = Some JNull)) \<or>
          (\<exists>n. top_n i = Some n \<and>
             (map_of d ''top_n'' = Some (JInt n) \<or>
              (\<exists>v. map_of d ''top_n'' = Some v \<and> v \<noteq> JNull \<and> (\<forall>m. v \<noteq> JInt m) \<and>
                   conv v = Some n)))) \<and>
         ((date_range i = None \<and> (map_of d ''date_range'' = None \<or> map_of d ''date_range'' = Some JNull)) \<or>
          (\<exists>s. date_range i = Some s \<and> map_of d ''date_range'' = Some (JStr s))))) \<and>
   (model_validate conv candidate = Inl ValidationError \<longleftrightarrow>
      (\<forall>j. model_validate conv candidate \<noteq> Inr j))"
proof -
  have 1: "model_validate conv candidate = Inr i \<longleftrightarrow>
      (\<exists>d. candidate = JDict d \<and>
         map_of d ''intent'' = Some (JStr (intent i)) \<and>
         (intent i = ''customer'' \<or> intent i = ''product'' \<or> intent i = ''business_metric'') \<and>
         ((customer_id i = None \<and> (map_of d ''customer_id'' = None \<or> map_of d ''customer_id'' = Some JNull)) \<or>
          (\<exists>n. customer_id i = Some n \<and>
             (map_of d ''customer_id'' = Some (JInt n) \<or>
              (\<exists>v. map_of d ''customer_id'' = Some v \<and> v \<noteq> JNull \<and> (\<forall>m. v \<noteq> JInt m) \<and>
                   conv v = Some n)))) \<and>
         ((product_id i = None \<and> (map_of d ''product_id'' = None \<or> map_of d ''product_id'' = Some JNull)) \<or>
          (\<exists>s. product_id i = Some s \<and> map_of d ''product_id'' = Some (JStr s))) \<and>
         ((metric i = None \<and> (map_of d ''metric'' = None \<or> map_of d ''metric'' = Some JNull)) \<or>
          (\<exists>s. metric i = Some s \<and> map_of d ''metric'' = Some (JStr s))) \<and>
         ((top_n i = None \<and> (map_of d ''top_n'' = None \<or> map_of d ''top_n'' = Some JNull)) \<or>
          (\<exists>n. top_n i = Some n \<and>
             (map_of d ''top_n'' = Some (JInt n) \<or>
              (\<exists>v. map_of d ''top_n'' = Some v \<and> v \<noteq> JNull \<and> (\<forall>m. v \<noteq> JInt m) \<and>
                   conv v = Some n)))) \<and>
         ((date_range i = None \<and> (map_of d ''date_range'' = None \<or> map_of d ''date_range'' = Some JNull)) \<or>
          (\<exists>s. date_range i = Some s \<and> map_of d ''date_range'' = Some (JStr s))))"
  proof (cases "\<exists>d. candidate = JDict d")
    case True
    then obtain d0 where c: "candidate = JDict d0" by blast
    show ?thesis
      unfolding c model_validate_fields validate_literal_iff validate_opt_int_iff
        validate_opt_str_iff
      by simp
  next
    case False
    then have "model_validate conv candidate = Inl ValidationError"
      by (simp add: model_validate_not_dict)
    with False show ?thesis by simp
  qed
  have 2: "model_validate conv candidate = Inl ValidationError \<longleftrightarrow>
      (\<forall>j. model_validate conv candidate \<noteq> Inr j)"
  proof (cases "model_validate conv candidate")
    case (Inl e)
    then show ?thesis by (cases e) simp
  next
    case (Inr j)
    then show ?thesis by auto
  qed
  from 1 2 show ?thesis by (rule conjI)
qed


theorem model_validate_declared_types_witness:
  "model_validate (\<lambda>v. if v = JStr ''42'' then Some 42 else None)
     (JDict [(''intent'', JStr ''customer''), (''customer_id'', JInt 123),
             (''product_id'', JNull), (''metric'', JStr ''summary''),
             (''date_range'', JNull)]) =
     Inr \<lparr>intent = ''customer'', customer_id = Some 123, product_id = None,
          metric = Some ''summary'', top_n = None, date_range = None\<rparr> \<and>
   model_validate (\<lambda>v. if v = JStr ''42'' then Some 42 else None)
     (JDict [(''intent'', JStr ''customer''), (''customer_id'', JStr ''42''),
             (''note'', JBool True)]) =
     Inr \<lparr>intent = ''customer'', customer_id = Some 42, product_id = None,
          metric = None, top_n = None, date_range = None\<rparr> \<and>
   model_validate (\<lambda>v. if v = JStr ''42'' then Some 42 else None)
     (JDict [(''intent'', JStr ''invalid_type''), (''customer_id'', JNull)]) =
     Inl ValidationError \<and>
   model_validate (\<lambda>v. if v = JStr ''42'' then Some 42 else None)
     (JDict [(''customer_id'', JNull), (''metric'', JNull)]) = Inl ValidationError \<and>
   model_validate (\<lambda>v. if v = JStr ''42'' then Some 42 else None)
     (JDict [(''intent'', JStr ''customer''), (''customer_id'', JList [])]) =
     Inl ValidationError \<and>
   model_validate (\<lambda>v. if v = JStr ''42'' then Some 42 else None)
     (JDict [(''intent'', JStr ''product''), (''product_id'', JInt 5)]) =
     Inl ValidationError \<and>
   model_validate (\<lambda>v. if v = JStr ''42'' then Some 42 else None) (JList []) =
     Inl ValidationError"
proof -
  let ?conv = "\<lambda>v. if v = JStr ''42'' then Some (42::int) else None"
  let ?i1 = "\<lparr>intent = ''customer'', customer_id = Some 123, product_id = None,
          metric = Some ''summary'', top_n = None, date_range = None\<rparr>"
  let ?i2 = "\<lparr>intent = ''customer'', customer_id = Some 42, product_id = None,
          metric = None, top_n = None, date_range = None\<rparr>"
  note T = model_validate_declared_types [where conv = ?conv]
  have 1: "model_validate ?conv
     (JDict [(''intent'', JStr ''customer''), (''customer_id'', JInt 123),
             (''product_id'', JNull), (''metric'', JStr ''summary''),
             (''date_range'', JNull)]) = Inr ?i1"
    using T [where i = ?i1] by simp
  have 2: "model_validate ?conv
     (JDict [(''intent'', JStr ''customer''), (''customer_id'', JStr ''42''),
             (''note'', JBool True)]) = Inr ?i2"
    using T [where i = ?i2] by simp
  have 3: "model_validate ?conv
     (JDict [(''intent'', JStr ''invalid_type''), (''customer_id'', JNull)]) =
     Inl ValidationError"
    using T by auto
  have 4: "model_validate ?conv
     (JDict [(''customer_id'', JNull), (''metric'', JNull)]) = Inl ValidationError"
    using T by auto
  have 5: "model_validate ?conv
     (JDict [(''intent'', JStr ''customer''), (''customer_id'', JList [])]) =
     Inl ValidationError"
    using T by auto
  have 6: "model_validate ?conv
     (JDict [(''intent'', JStr ''product''), (''product_id'', JInt 5)]) =
     Inl ValidationError"
    using T by auto
  have 7: "model_validate ?conv (JList []) = Inl ValidationError"
    using T by auto
  from 1 2 3 4 5 6 7 show ?thesis by (intro conjI)
qed

end
